theory Spec2Isabelle
  imports Complex_Main "HOL-Library.Sublist" "HOL-Library.AList"
begin

section \<open>Python values\<close>

text \<open>
  A Python \<open>str\<close> is a sequence of Unicode code points, and \<open>len\<close> and slicing count
  code points. The module's messages are Korean, so a string is modelled as the list of
  its code points. \<open>lit\<close> embeds an ASCII literal; the Korean fragments of the source's
  literals are written as their code points.
\<close>

type_synonym ustr = "nat list"

definition lit :: "string \<Rightarrow> ustr" where
  "lit s = map of_char s"

text \<open>
  The values that cross this module are of type \<open>Any\<close>. \<open>PObj c attrs\<close> is an instance of
  a class named \<open>c\<close> with the instance attributes \<open>attrs\<close> that is not a \<open>str\<close>, \<open>dict\<close>
  or \<open>list\<close>; a dict is its list of items in insertion order.
\<close>

datatype pyval =
    PNone
  | PBool bool
  | PInt int
  | PStr ustr
  | PList "pyval list"
  | PDict "(pyval \<times> pyval) list"
  | PObj ustr "(ustr \<times> pyval) list"

text \<open>
  The exceptions of the model. \<open>exn_kind\<close> records the part of the class hierarchy that
  the \<open>except\<close> clauses of the module test: an instance of \<open>asyncio.TimeoutError\<close>, of
  \<open>MCPToolTimeoutError\<close>, of \<open>MCPToolConnectionError\<close>, of \<open>FileNotFoundError\<close>, of any
  other subclass of \<open>Exception\<close>, or of a \<open>BaseException\<close> that is not an \<open>Exception\<close>
  (\<open>KeyboardInterrupt\<close>, \<open>asyncio.CancelledError\<close>), which no \<open>except Exception\<close> catches.
  \<open>exn_type\<close> is \<open>type(e).__name__\<close> and \<open>exn_str\<close> is \<open>str(e)\<close>.
\<close>

datatype exn_kind =
    AsyncTimeoutK | ToolTimeoutK | ToolConnectionK | FileNotFoundK | OtherK | BaseOnlyK

datatype exn = Exn (exn_kind: exn_kind) (exn_type: ustr) (exn_str: ustr)

definition is_Exception :: "exn \<Rightarrow> bool" where
  "is_Exception e = (exn_kind e \<noteq> BaseOnlyK)"

text \<open>
  The builtins of Python that the module calls and this development does not define are
  parameters: \<open>str.lower\<close> and \<open>str.upper\<close> (Unicode case mapping), \<open>str()\<close> of a list, a
  dict or an object, \<open>str()\<close> of a float, what \<open>len(x)\<close> followed by \<open>x[:500]\<close> raises
  for a value that is not a string, and the truth value of an object. Every theorem
  holds for all of them.
\<close>

record pylib =
  str_lower :: "ustr \<Rightarrow> ustr"
  str_upper :: "ustr \<Rightarrow> ustr"
  str_other :: "pyval \<Rightarrow> ustr"
  float_str :: "real \<Rightarrow> ustr"
  preview_error :: "pyval \<Rightarrow> exn option"
  obj_truthy :: "pyval \<Rightarrow> bool"

subsection \<open>Decimal rendering, substring test\<close>

function str_nat :: "nat \<Rightarrow> ustr" where
  "str_nat n = (if n < 10 then [48 + n] else str_nat (n div 10) @ [48 + n mod 10])"
  by pat_completeness auto
termination
  by (relation "measure id") auto

definition str_int :: "int \<Rightarrow> ustr" where
  "str_int i = (if i < 0 then 45 # str_nat (nat (- i)) else str_nat (nat i))"

text \<open>\<open>sub in s\<close> on strings: \<open>sub\<close> occurs in \<open>s\<close> as a contiguous run.\<close>

fun contains :: "ustr \<Rightarrow> ustr \<Rightarrow> bool" where
  "contains sub [] = (sub = [])"
| "contains sub (c # cs) = (prefix sub (c # cs) \<or> contains sub cs)"

text \<open>\<open>str(x)\<close>, and the name of the type of \<open>x\<close>.\<close>

definition py_str :: "pylib \<Rightarrow> pyval \<Rightarrow> ustr" where
  "py_str py v =
     (case v of
        PStr s \<Rightarrow> s
      | PNone \<Rightarrow> lit ''None''
      | PBool b \<Rightarrow> (if b then lit ''True'' else lit ''False'')
      | PInt i \<Rightarrow> str_int i
      | _ \<Rightarrow> str_other py v)"

definition type_name :: "pyval \<Rightarrow> ustr" where
  "type_name v =
     (case v of
        PNone \<Rightarrow> lit ''NoneType''
      | PBool _ \<Rightarrow> lit ''bool''
      | PInt _ \<Rightarrow> lit ''int''
      | PStr _ \<Rightarrow> lit ''str''
      | PList _ \<Rightarrow> lit ''list''
      | PDict _ \<Rightarrow> lit ''dict''
      | PObj c _ \<Rightarrow> c)"

text \<open>
  \<open>hasattr(x, a)\<close> and \<open>x.a\<close>: none of the builtin classes above has an attribute of a
  name that the module probes (\<open>content\<close>, \<open>text\<close>, \<open>name\<close>, \<open>description\<close>,
  \<open>inputSchema\<close>).
\<close>

definition getattr :: "pyval \<Rightarrow> ustr \<Rightarrow> pyval option" where
  "getattr v a = (case v of PObj _ attrs \<Rightarrow> map_of attrs a | _ \<Rightarrow> None)"

section \<open>The sanitizer\<close>

definition sensitive_keys :: "ustr list" where
  "sensitive_keys =
     [lit ''api_key'', lit ''apikey'', lit ''password'', lit ''secret'', lit ''token'',
      lit ''credential'']"

definition REDACTED :: ustr where
  "REDACTED = lit ''***REDACTED***''"

text \<open>The three branches of the loop body, for one item of the argument dict.\<close>

definition is_sensitive :: "pylib \<Rightarrow> ustr \<Rightarrow> bool" where
  "is_sensitive py key =
     (let key_lower = str_lower py key
      in list_ex (\<lambda>sensitive. contains sensitive key_lower) sensitive_keys)"

definition truncated :: "ustr \<Rightarrow> ustr" where
  "truncated v = take 100 v @ lit ''...('' @ str_nat (length v) @ lit '' chars)''"

definition sanitize_item :: "pylib \<Rightarrow> ustr \<Rightarrow> pyval \<Rightarrow> pyval" where
  "sanitize_item py key v =
     (if is_sensitive py key then PStr REDACTED
      else (case v of
              PStr s \<Rightarrow> if length s > 200 then PStr (truncated s) else v
            | _ \<Rightarrow> v))"

text \<open>
  \<open>_sanitize_arguments_for_logging\<close>: \<open>sanitized = {}\<close>, then one assignment
  \<open>sanitized[key] = ...\<close> for every item of \<open>arguments\<close>, in order.
\<close>

fun sanitize_loop ::
  "pylib \<Rightarrow> (ustr \<times> pyval) list \<Rightarrow> (ustr \<times> pyval) list \<Rightarrow> (ustr \<times> pyval) list" where
  "sanitize_loop py [] sanitized = sanitized"
| "sanitize_loop py ((key, v) # items) sanitized =
     sanitize_loop py items (AList.update key (sanitize_item py key v) sanitized)"

definition sanitize_arguments_for_logging ::
  "pylib \<Rightarrow> (ustr \<times> pyval) list \<Rightarrow> (ustr \<times> pyval) list" where
  "sanitize_arguments_for_logging py arguments = sanitize_loop py arguments []"

text \<open>
  The same function on a store of dict objects, where a dict is named by its address (its
  index in the store) and an assignment \<open>d[key] = x\<close> updates the store at the address of
  \<open>d\<close>. \<open>{}\<close> allocates a new dict at the end of the store. The result is the new store
  and the address of \<open>sanitized\<close>; \<open>None\<close> stands for an address that names no dict.
\<close>

type_synonym store = "(ustr \<times> pyval) list list"

fun sanitize_store_loop :: "pylib \<Rightarrow> (ustr \<times> pyval) list \<Rightarrow> nat \<Rightarrow> store \<Rightarrow> store" where
  "sanitize_store_loop py [] out h = h"
| "sanitize_store_loop py ((key, v) # items) out h =
     sanitize_store_loop py items out
       (h[out := AList.update key (sanitize_item py key v) (h ! out)])"

definition sanitize_in_store :: "pylib \<Rightarrow> store \<Rightarrow> nat \<Rightarrow> (store \<times> nat) option" where
  "sanitize_in_store py h arguments =
     (if arguments < length h
      then (let sanitized = length h;
                h1 = h @ [[]]
            in Some (sanitize_store_loop py (h1 ! arguments) sanitized h1, sanitized))
      else None)"

section \<open>The result normalizer\<close>

definition TypeError :: "ustr \<Rightarrow> exn" where
  "TypeError msg = Exn OtherK (lit ''TypeError'') msg"

text \<open>
  \<open>sep.join(parts)\<close>: the parts must all be strings; the first one that is not raises
  \<open>TypeError\<close>, whose message names its position and its type.
\<close>

fun first_non_str :: "nat \<Rightarrow> pyval list \<Rightarrow> (nat \<times> pyval) option" where
  "first_non_str i [] = None"
| "first_non_str i (PStr s # xs) = first_non_str (Suc i) xs"
| "first_non_str i (x # xs) = Some (i, x)"

fun join :: "ustr \<Rightarrow> ustr list \<Rightarrow> ustr" where
  "join sep [] = []"
| "join sep [s] = s"
| "join sep (s # t # ts) = s @ sep @ join sep (t # ts)"

definition the_str :: "pyval \<Rightarrow> ustr" where
  "the_str v = (case v of PStr s \<Rightarrow> s | _ \<Rightarrow> [])"

definition str_join :: "ustr \<Rightarrow> pyval list \<Rightarrow> exn + ustr" where
  "str_join sep parts =
     (case first_non_str 0 parts of
        Some (i, x) \<Rightarrow>
          Inl (TypeError (lit ''sequence item '' @ str_nat i @ lit '': expected str instance, ''
                            @ type_name x @ lit '' found''))
      | None \<Rightarrow> Inr (join sep (map the_str parts)))"

text \<open>The \<open>if\<close>/\<open>elif\<close> chain of the loop over the content blocks: what is appended.\<close>

definition content_block_text :: "pylib \<Rightarrow> pyval \<Rightarrow> pyval" where
  "content_block_text py content_block =
     (case getattr content_block (lit ''text'') of
        Some t \<Rightarrow> t
      | None \<Rightarrow>
          (case content_block of
             PStr s \<Rightarrow> content_block
           | PDict items \<Rightarrow>
               (case map_of items (PStr (lit ''text'')) of
                  Some t \<Rightarrow> t
                | None \<Rightarrow> PStr (py_str py content_block))
           | _ \<Rightarrow> PStr (py_str py content_block)))"

text \<open>
  \<open>_process_mcp_result\<close>. The source returns \<open>content.text\<close>, \<open>content['text']\<close> and
  \<open>result['text']\<close> as they are, so the value returned is a \<open>pyval\<close>; \<open>join\<close> may raise.
\<close>

definition process_mcp_result :: "pylib \<Rightarrow> pyval \<Rightarrow> exn + pyval" where
  "process_mcp_result py result =
     (if result = PNone then Inr (PStr [])
      else
        (case getattr result (lit ''content'') of
           Some content \<Rightarrow>
             (case content of
                PList blocks \<Rightarrow>
                  (case str_join [10] (map (content_block_text py) blocks) of
                     Inl e \<Rightarrow> Inl e
                   | Inr joined \<Rightarrow> Inr (PStr joined))
              | _ \<Rightarrow>
                  (case getattr content (lit ''text'') of
                     Some t \<Rightarrow> Inr t
                   | None \<Rightarrow>
                       (case content of
                          PStr s \<Rightarrow> Inr content
                        | PDict items \<Rightarrow>
                            (case map_of items (PStr (lit ''text'')) of
                               Some t \<Rightarrow> Inr t
                             | None \<Rightarrow> Inr (PStr (py_str py content)))
                        | _ \<Rightarrow> Inr (PStr (py_str py content)))))
         | None \<Rightarrow>
             (case result of
                PStr s \<Rightarrow> Inr result
              | PDict items \<Rightarrow>
                  (case map_of items (PStr (lit ''text'')) of
                     Some t \<Rightarrow> Inr t
                   | None \<Rightarrow>
                       (case map_of items (PStr (lit ''result'')) of
                          Some r \<Rightarrow> Inr (PStr (py_str py r))
                        | None \<Rightarrow>
                            (case map_of items (PStr (lit ''data'')) of
                               Some d \<Rightarrow> Inr (PStr (py_str py d))
                             | None \<Rightarrow> Inr (PStr (py_str py result)))))
              | _ \<Rightarrow> Inr (PStr (py_str py result)))))"

text \<open>
  The precedence of the specification, section 4.4, in its own words: every case yields a
  string, and a value taken from a \<open>text\<close>, \<open>result\<close> or \<open>data\<close> key is coerced to one.
\<close>

definition element_text_spec :: "pylib \<Rightarrow> pyval \<Rightarrow> ustr" where
  "element_text_spec py el =
     (case getattr el (lit ''text'') of
        Some t \<Rightarrow> py_str py t
      | None \<Rightarrow>
          (case el of
             PStr s \<Rightarrow> s
           | PDict items \<Rightarrow>
               (case map_of items (PStr (lit ''text'')) of
                  Some t \<Rightarrow> py_str py t
                | None \<Rightarrow> py_str py el)
           | _ \<Rightarrow> py_str py el))"

definition normalize_spec :: "pylib \<Rightarrow> pyval \<Rightarrow> ustr" where
  "normalize_spec py r =
     (case r of
        PNone \<Rightarrow> []
      | PStr s \<Rightarrow> s
      | _ \<Rightarrow>
        (case getattr r (lit ''content'') of
           Some (PList els) \<Rightarrow> join [10] (map (element_text_spec py) els)
         | Some c \<Rightarrow> element_text_spec py c
         | None \<Rightarrow>
             (case r of
                PDict items \<Rightarrow>
                  (case map_of items (PStr (lit ''text'')) of
                     Some t \<Rightarrow> py_str py t
                   | None \<Rightarrow>
                       (case map_of items (PStr (lit ''result'')) of
                          Some x \<Rightarrow> py_str py x
                        | None \<Rightarrow>
                            (case map_of items (PStr (lit ''data'')) of
                               Some d \<Rightarrow> py_str py d
                             | None \<Rightarrow> py_str py r)))
              | _ \<Rightarrow> py_str py r)))"

text \<open>The inputs on which every \<open>text\<close> field that the normalizer reads holds a string.\<close>

definition text_is_str :: "pyval \<Rightarrow> bool" where
  "text_is_str v =
     (case getattr v (lit ''text'') of
        Some t \<Rightarrow> (case t of PStr _ \<Rightarrow> True | _ \<Rightarrow> False)
      | None \<Rightarrow>
          (case v of
             PDict items \<Rightarrow>
               (case map_of items (PStr (lit ''text'')) of
                  Some t \<Rightarrow> (case t of PStr _ \<Rightarrow> True | _ \<Rightarrow> False)
                | None \<Rightarrow> True)
           | _ \<Rightarrow> True))"

definition texts_are_str :: "pyval \<Rightarrow> bool" where
  "texts_are_str r =
     (case getattr r (lit ''content'') of
        Some (PList els) \<Rightarrow> list_all text_is_str els
      | Some c \<Rightarrow> text_is_str c
      | None \<Rightarrow> text_is_str r)"

section \<open>Error messages\<close>

text \<open>\<open>MCPToolError._format_message\<close>, which is \<open>str(e)\<close> of the module's exceptions.\<close>

definition format_message :: "ustr \<Rightarrow> ustr \<Rightarrow> ustr \<Rightarrow> exn option \<Rightarrow> ustr" where
  "format_message tool_name server_name message original_error =
     (let base_msg = lit ''['' @ server_name @ (lit ''] '' @ [46020, 44396] @ lit '' '' @ [39])
                       @ tool_name @ ([39] @ lit '' '' @ [50724, 47448] @ lit '': '') @ message
      in case original_error of
           None \<Rightarrow> base_msg
         | Some oe \<Rightarrow>
             base_msg @ (lit '' ('' @ [50896, 51064] @ lit '': '') @ exn_type oe @ lit '': ''
               @ exn_str oe @ lit '')'')"

definition MCPToolConnectionError :: "ustr \<Rightarrow> ustr \<Rightarrow> ustr \<Rightarrow> exn" where
  "MCPToolConnectionError tool_name server_name message =
     Exn ToolConnectionK (lit ''MCPToolConnectionError'')
       (format_message tool_name server_name message None)"

definition MCPToolTimeoutError :: "pylib \<Rightarrow> ustr \<Rightarrow> ustr \<Rightarrow> real \<Rightarrow> exn" where
  "MCPToolTimeoutError py tool_name server_name timeout_seconds =
     (let message = ([49892, 54665] @ lit '' '' @ [49884, 44036] @ lit '' '' @ [52488, 44284]
                      @ lit '' ('') @ float_str py timeout_seconds @ ([52488] @ lit '')'')
      in Exn ToolTimeoutK (lit ''MCPToolTimeoutError'')
           (format_message tool_name server_name message None))"

text \<open>\<open>_format_error_details\<close>: a dict from type names to messages, and a default.\<close>

definition format_error_details :: "exn \<Rightarrow> ustr" where
  "format_error_details error =
     (let error_type = exn_type error;
          error_msg = exn_str error;
          error_messages =
            [(lit ''ConnectionError'',
                [49436, 48260] @ lit '' '' @ [50672, 44208, 50640] @ lit '' ''
                @ [49892, 54056, 54664, 49845, 45768, 45796] @ lit ''. ''
                @ [45348, 53944, 50892, 53356] @ lit '' '' @ [49345, 53468, 47484] @ lit '' ''
                @ [54869, 51064, 54616, 49464, 50836] @ lit ''.''),
             (lit ''TimeoutError'',
                [50836, 52397] @ lit '' '' @ [49884, 44036, 51060] @ lit '' ''
                @ [52488, 44284, 46104, 50632, 49845, 45768, 45796] @ lit ''. ''
                @ [45208, 51473, 50640] @ lit '' '' @ [45796, 49884] @ lit '' ''
                @ [49884, 46020, 54616, 49464, 50836] @ lit ''.''),
             (lit ''AuthenticationError'',
                [51064, 51613, 50640] @ lit '' '' @ [49892, 54056, 54664, 49845, 45768, 45796]
                @ lit ''. '' @ [51088, 44201] @ lit '' '' @ [51613, 47749, 51012] @ lit '' ''
                @ [54869, 51064, 54616, 49464, 50836] @ lit ''.''),
             (lit ''PermissionError'',
                [44428, 54620, 51060] @ lit '' '' @ [50630, 49845, 45768, 45796] @ lit ''. ''
                @ [51217, 44540] @ lit '' '' @ [44428, 54620, 51012] @ lit '' ''
                @ [54869, 51064, 54616, 49464, 50836] @ lit ''.''),
             (lit ''ValueError'',
                [51096, 47803, 46108] @ lit '' '' @ [44050, 51060] @ lit '' ''
                @ [51204, 45804, 46104, 50632, 49845, 45768, 45796] @ lit '': '' @ error_msg),
             (lit ''TypeError'',
                [51096, 47803, 46108] @ lit '' '' @ [53440, 51077, 51060] @ lit '' ''
                @ [51204, 45804, 46104, 50632, 49845, 45768, 45796] @ lit '': '' @ error_msg)]
      in case map_of error_messages error_type of
           Some m \<Rightarrow> m
         | None \<Rightarrow> error_type @ lit '': '' @ error_msg)"

section \<open>The tool executor\<close>

datatype MCPToolResultStatus = SUCCESS | ERROR | TIMEOUT | CONNECTION_ERROR | VALIDATION_ERROR

record MCPToolResult =
  tool_name :: ustr
  server_name :: ustr
  status :: MCPToolResultStatus
  result :: "pyval option"
  error_message :: "ustr option"
  execution_time_ms :: real
  arguments :: "(ustr \<times> pyval) list"

text \<open>
  What the function does to the world is a trace of events: the log records, by the
  statement that wrote them and the values interpolated into the message (the text of the
  message is not rendered), the invocation of \<open>session.call_tool\<close>, and the wait in
  \<open>asyncio.wait_for\<close>. \<open>time.time()\<close> is the next reading of a clock given as the
  sequence of its readings; readings are real numbers, the rounding of floats is not modelled.
\<close>

datatype level = LogDebug | LogInfo | LogWarning | LogError

datatype log_site =
    ExecStart | ExecArguments | ExecTimeout | ExecSuccess | ExecPreview | ExecConnectionError
  | ExecFailure | ExecTraceback
  | InitBegin | InitProviderDone | InitNoConfig | InitDone | InitFailed
  | StartNoConfig | StartBegin | StartDiscovered | StartNoExecutable | StartFailed

datatype field = FStr ustr | FReal real | FNat nat | FArgs "(ustr \<times> pyval) list"

datatype event =
    Log level log_site "field list"
  | CallTool ustr "(ustr \<times> pyval) list"
  | WaitFor real

record world =
  ticks :: nat
  trace :: "event list"

definition emit :: "event \<Rightarrow> world \<Rightarrow> world" where
  "emit e w = w\<lparr>trace := trace w @ [e]\<rparr>"

definition time_time :: "(nat \<Rightarrow> real) \<Rightarrow> world \<Rightarrow> real \<times> world" where
  "time_time clk w = (clk (ticks w), w\<lparr>ticks := Suc (ticks w)\<rparr>)"

text \<open>
  A session is what awaiting \<open>asyncio.wait_for(session.call_tool(name, args), timeout)\<close>
  does: the call completes in time, with a value or with an exception, or the timeout
  elapses first and \<open>wait_for\<close> cancels the call and raises \<open>asyncio.TimeoutError\<close>.
\<close>

datatype race = Completed "exn + pyval" | RaceLost

type_synonym session = "ustr \<Rightarrow> (ustr \<times> pyval) list \<Rightarrow> real \<Rightarrow> race"

text \<open>The handler of the inner \<open>try\<close>: read the clock, log, raise \<open>MCPToolTimeoutError\<close>.\<close>

definition on_wait_timeout ::
  "pylib \<Rightarrow> (nat \<Rightarrow> real) \<Rightarrow> real \<Rightarrow> ustr \<Rightarrow> ustr \<Rightarrow> real \<Rightarrow> world \<Rightarrow> exn \<times> world" where
  "on_wait_timeout py clk start_time tool server timeout_seconds w =
     (let (now, w1) = time_time clk w;
          elapsed_ms = (now - start_time) * 1000;
          w2 = emit (Log LogError ExecTimeout
                      [FStr tool, FStr server, FReal timeout_seconds, FReal elapsed_ms]) w1
      in (MCPToolTimeoutError py tool server timeout_seconds, w2))"

text \<open>
  The two log statements of the success path. \<open>len(result_text)\<close> and \<open>result_text[:500]\<close>
  cannot fail on a string; on another value they raise what \<open>preview_error\<close> says (and
  then the trace does not record whether the first statement had been written).
\<close>

definition log_success ::
  "pylib \<Rightarrow> ustr \<Rightarrow> ustr \<Rightarrow> real \<Rightarrow> pyval \<Rightarrow> world \<Rightarrow> exn option \<times> world" where
  "log_success py tool server elapsed_ms result_text w =
     (case result_text of
        PStr s \<Rightarrow>
          (None,
           emit (Log LogDebug ExecPreview [FStr (take 500 s)])
             (emit (Log LogInfo ExecSuccess
                     [FStr tool, FStr server, FReal elapsed_ms, FNat (length s)]) w))
      | _ \<Rightarrow>
          (case preview_error py result_text of
             Some e \<Rightarrow> (Some e, w)
           | None \<Rightarrow>
               (None,
                emit (Log LogDebug ExecPreview [])
                  (emit (Log LogInfo ExecSuccess
                          [FStr tool, FStr server, FReal elapsed_ms]) w))))"

text \<open>
  The body of the outer \<open>try\<close>: a result, or the exception that leaves it. The
  arguments are a dict with string keys, as the signature says, so the call of the
  sanitizer that stands before the \<open>try\<close> does not raise.
\<close>

definition execute_body ::
  "pylib \<Rightarrow> (nat \<Rightarrow> real) \<Rightarrow> real \<Rightarrow> session option \<Rightarrow> ustr \<Rightarrow> ustr \<Rightarrow> (ustr \<times> pyval) list
     \<Rightarrow> real \<Rightarrow> world \<Rightarrow> (exn + MCPToolResult) \<times> world" where
  "execute_body py clk start_time session tool server args timeout_seconds w =
     (case session of
        None \<Rightarrow>
          (Inl (MCPToolConnectionError tool server
                  (lit ''MCP '' @ [49464, 49496, 51060] @ lit '' None'' @ [51077, 45768, 45796]
                   @ lit ''. '' @ [49436, 48260] @ lit '' '' @ [50672, 44208, 51012] @ lit '' ''
                   @ [54869, 51064, 54616, 49464, 50836] @ lit ''.'')), w)
      | Some call_tool \<Rightarrow>
          (let w1 = emit (WaitFor timeout_seconds) (emit (CallTool tool args) w)
           in case call_tool tool args timeout_seconds of
                RaceLost \<Rightarrow>
                  (let (e, w2) = on_wait_timeout py clk start_time tool server timeout_seconds w1
                   in (Inl e, w2))
              | Completed (Inl e) \<Rightarrow>
                  (if exn_kind e = AsyncTimeoutK
                   then (let (e', w2) =
                           on_wait_timeout py clk start_time tool server timeout_seconds w1
                         in (Inl e', w2))
                   else (Inl e, w1))
              | Completed (Inr raw) \<Rightarrow>
                  (case process_mcp_result py raw of
                     Inl e \<Rightarrow> (Inl e, w1)
                   | Inr result_text \<Rightarrow>
                       (let (now, w2) = time_time clk w1;
                            elapsed_ms = (now - start_time) * 1000
                        in case log_success py tool server elapsed_ms result_text w2 of
                             (Some e, w3) \<Rightarrow> (Inl e, w3)
                           | (None, w3) \<Rightarrow>
                               (Inr \<lparr> tool_name = tool, server_name = server, status = SUCCESS,
                                      result = Some result_text, error_message = None,
                                      execution_time_ms = elapsed_ms,
                                      arguments = args \<rparr>, w3)))))"

text \<open>
  The \<open>except\<close> clauses of the outer \<open>try\<close>, in their order. An exception that is not an
  \<open>Exception\<close> matches none of them and leaves the function.
\<close>

definition execute_handlers ::
  "pylib \<Rightarrow> (nat \<Rightarrow> real) \<Rightarrow> real \<Rightarrow> ustr \<Rightarrow> ustr \<Rightarrow> (ustr \<times> pyval) list \<Rightarrow> real \<Rightarrow> exn \<Rightarrow> world
     \<Rightarrow> (exn + MCPToolResult) \<times> world" where
  "execute_handlers py clk start_time tool server args timeout_seconds e w =
     (if exn_kind e = ToolTimeoutK then
        (let (now, w1) = time_time clk w;
             elapsed_ms = (now - start_time) * 1000
         in (Inr \<lparr> tool_name = tool, server_name = server, status = TIMEOUT, result = None,
                   error_message =
                     Some (([46020, 44396] @ lit '' '' @ [49892, 54665] @ lit '' '' @ [49884, 44036]
                            @ lit '' '' @ [52488, 44284] @ lit '' ('')
                           @ float_str py timeout_seconds @ ([52488] @ lit '')'')),
                   execution_time_ms = elapsed_ms, arguments = args \<rparr>, w1))
      else if exn_kind e = ToolConnectionK then
        (let (now, w1) = time_time clk w;
             elapsed_ms = (now - start_time) * 1000;
             w2 = emit (Log LogError ExecConnectionError [FStr tool, FStr server, FStr (exn_str e)])
                    w1
         in (Inr \<lparr> tool_name = tool, server_name = server, status = CONNECTION_ERROR,
                   result = None, error_message = Some (exn_str e),
                   execution_time_ms = elapsed_ms, arguments = args \<rparr>, w2))
      else if is_Exception e then
        (let (now, w1) = time_time clk w;
             elapsed_ms = (now - start_time) * 1000;
             error_details = format_error_details e;
             w2 = emit (Log LogError ExecFailure
                         [FStr tool, FStr server, FStr (exn_type e), FStr (exn_str e),
                          FReal elapsed_ms]) w1;
             w3 = emit (Log LogDebug ExecTraceback []) w2
         in (Inr \<lparr> tool_name = tool, server_name = server, status = ERROR, result = None,
                   error_message = Some error_details,
                   execution_time_ms = elapsed_ms, arguments = args \<rparr>, w3))
      else (Inl e, w))"

definition execute_mcp_tool ::
  "pylib \<Rightarrow> (nat \<Rightarrow> real) \<Rightarrow> session option \<Rightarrow> ustr \<Rightarrow> ustr \<Rightarrow> (ustr \<times> pyval) list \<Rightarrow> real
     \<Rightarrow> world \<Rightarrow> (exn + MCPToolResult) \<times> world" where
  "execute_mcp_tool py clk session tool server args timeout_seconds w =
     (let (start_time, w1) = time_time clk w;
          w2 = emit (Log LogInfo ExecStart [FStr tool, FStr server, FReal timeout_seconds]) w1;
          w3 = emit (Log LogDebug ExecArguments [FArgs (sanitize_arguments_for_logging py args)])
                 w2
      in case execute_body py clk start_time session tool server args timeout_seconds w3 of
           (Inr r, w4) \<Rightarrow> (Inr r, w4)
         | (Inl e, w4) \<Rightarrow>
             execute_handlers py clk start_time tool server args timeout_seconds e w4)"

section \<open>The capability adapter\<close>

text \<open>
  \<open>MCPToolWrapper\<close>, \<open>MCPServerInfo\<close> and the manager. The fields carry a prefix, since
  the three classes share field names.
\<close>

record MCPToolWrapper =
  w_name :: ustr
  w_description :: ustr
  w_mcp_tool :: "pyval \<times> pyval"
  w_session :: "session option"
  w_server_name :: ustr
  w_timeout_seconds :: real






section \<open>The server manager\<close>

record GrafanaConfig =
  url :: ustr
  api_key :: ustr

record CloudWatchConfig =
  aws_access_key_id :: ustr
  aws_secret_access_key :: ustr
  region :: ustr

record MCPServerInfo =
  si_name :: ustr
  si_session :: "session option"
  si_tools :: "pyval list"
  si_is_connected :: bool

record MCPServerManager =
  grafana_config :: "GrafanaConfig option"
  cloudwatch_config :: "CloudWatchConfig option"
  servers :: "(ustr \<times> MCPServerInfo) list"
  initialized :: bool

definition MCPServerManager_init ::
  "GrafanaConfig option \<Rightarrow> CloudWatchConfig option \<Rightarrow> MCPServerManager" where
  "MCPServerManager_init gc cc =
     \<lparr> grafana_config = gc, cloudwatch_config = cc, servers = [], initialized = False \<rparr>"

text \<open>
  What happens inside the \<open>try\<close> of a start function, from spawning the provider to the
  \<open>return\<close>, is given by the environment: the handshake and the discovery succeed, with
  a session and the list in the \<open>tools\<close> attribute of the response (\<open>None\<close> when the
  response has no such attribute), or an exception is raised somewhere in the block.
\<close>

datatype start_outcome = Discovered session "pyval list option" | StartRaises exn

record environment =
  grafana_start :: "GrafanaConfig \<Rightarrow> start_outcome"
  cloudwatch_start :: "CloudWatchConfig \<Rightarrow> start_outcome"

text \<open>The \<open>try\<close> block and the two \<open>except\<close> clauses that both start functions share.\<close>

definition start_provider ::
  "ustr \<Rightarrow> ustr \<Rightarrow> start_outcome \<Rightarrow> world \<Rightarrow> (exn + MCPServerInfo option) \<times> world" where
  "start_provider provider target outcome w =
     (let w1 = emit (Log LogInfo StartBegin [FStr provider, FStr target]) w
      in case outcome of
           Discovered session tools_attr \<Rightarrow>
             (let tools = (case tools_attr of Some ts \<Rightarrow> ts | None \<Rightarrow> []);
                  w2 = emit (Log LogInfo StartDiscovered [FStr provider, FNat (length tools)]) w1
              in (Inr (Some \<lparr> si_name = provider, si_session = Some session, si_tools = tools,
                              si_is_connected = True \<rparr>), w2))
         | StartRaises e \<Rightarrow>
             (if exn_kind e = FileNotFoundK then
                (Inr None, emit (Log LogError StartNoExecutable [FStr provider]) w1)
              else if is_Exception e then
                (Inr None, emit (Log LogError StartFailed [FStr provider, FStr (exn_str e)]) w1)
              else (Inl e, w1)))"

definition start_grafana_mcp ::
  "environment \<Rightarrow> MCPServerManager \<Rightarrow> world \<Rightarrow> (exn + MCPServerInfo option) \<times> world" where
  "start_grafana_mcp env self w =
     (case grafana_config self of
        None \<Rightarrow> (Inr None, emit (Log LogWarning StartNoConfig [FStr (lit ''grafana'')]) w)
      | Some cfg \<Rightarrow> start_provider (lit ''grafana'') (url cfg) (grafana_start env cfg) w)"

definition start_cloudwatch_mcp ::
  "environment \<Rightarrow> MCPServerManager \<Rightarrow> world \<Rightarrow> (exn + MCPServerInfo option) \<times> world" where
  "start_cloudwatch_mcp env self w =
     (case cloudwatch_config self of
        None \<Rightarrow> (Inr None, emit (Log LogWarning StartNoConfig [FStr (lit ''cloudwatch'')]) w)
      | Some cfg \<Rightarrow>
          start_provider (lit ''cloudwatch'') (region cfg) (cloudwatch_start env cfg) w)"

text \<open>
  \<open>initialize_servers\<close>. The manager is mutated in place, so the state reached is returned
  also when an exception leaves the function (\<open>Some e\<close>).
\<close>

definition register_provider ::
  "ustr \<Rightarrow> (exn + MCPServerInfo option) \<times> world \<Rightarrow> MCPServerManager
     \<Rightarrow> exn option \<times> MCPServerManager \<times> world" where
  "register_provider provider started self =
     (case started of
        (Inl e, w) \<Rightarrow> (Some e, self, w)
      | (Inr None, w) \<Rightarrow> (None, self, w)
      | (Inr (Some server), w) \<Rightarrow>
          (None, self\<lparr>servers := AList.update provider server (servers self)\<rparr>,
           emit (Log LogInfo InitProviderDone [FStr provider]) w))"

definition initialize_body ::
  "environment \<Rightarrow> MCPServerManager \<Rightarrow> world \<Rightarrow> exn option \<times> MCPServerManager \<times> world" where
  "initialize_body env self w =
     (case (case grafana_config self of
              Some _ \<Rightarrow> register_provider (lit ''grafana'') (start_grafana_mcp env self w) self
            | None \<Rightarrow> (None, self, emit (Log LogWarning InitNoConfig [FStr (lit ''grafana'')]) w))
      of (Some e, self1, w1) \<Rightarrow> (Some e, self1, w1)
       | (None, self1, w1) \<Rightarrow>
         (case (case cloudwatch_config self1 of
                  Some _ \<Rightarrow>
                    register_provider (lit ''cloudwatch'') (start_cloudwatch_mcp env self1 w1) self1
                | None \<Rightarrow>
                    (None, self1,
                     emit (Log LogWarning InitNoConfig [FStr (lit ''cloudwatch'')]) w1))
          of (Some e, self2, w2) \<Rightarrow> (Some e, self2, w2)
           | (None, self2, w2) \<Rightarrow>
               (None, self2\<lparr>initialized := True\<rparr>,
                emit (Log LogInfo InitDone [FNat (length (servers self2))]) w2)))"

definition initialize_servers ::
  "environment \<Rightarrow> MCPServerManager \<Rightarrow> world \<Rightarrow> exn option \<times> MCPServerManager \<times> world" where
  "initialize_servers env self w =
     (case initialize_body env self (emit (Log LogInfo InitBegin []) w) of
        (Some e, self1, w1) \<Rightarrow>
          (if is_Exception e
           then (Some e, self1, emit (Log LogError InitFailed [FStr (exn_str e)]) w1)
           else (Some e, self1, w1))
      | (None, self1, w1) \<Rightarrow> (None, self1, w1))"

definition is_initialized :: "MCPServerManager \<Rightarrow> bool" where
  "is_initialized self = initialized self"

text \<open>
  \<open>get_all_tools\<close>: the body of the inner loop for one operation appends one adapter, or
  none when the provider has no session; the outer loop skips a provider that is not
  connected. The log statements write nothing that the result depends on and are left
  out, and so is the \<open>except\<close> of the inner loop: nothing in its \<open>try\<close> raises on the
  values of the model.
\<close>

definition tool_name_of :: "pylib \<Rightarrow> pyval \<Rightarrow> pyval" where
  "tool_name_of py mcp_tool =
     (case getattr mcp_tool (lit ''name'') of
        Some n \<Rightarrow> n
      | None \<Rightarrow> PStr (py_str py mcp_tool))"

definition wrap_tool ::
  "pylib \<Rightarrow> ustr \<Rightarrow> MCPServerInfo \<Rightarrow> real \<Rightarrow> pyval \<Rightarrow> MCPToolWrapper list" where
  "wrap_tool py server server_info timeout_seconds mcp_tool =
     (let tool_name = tool_name_of py mcp_tool;
          tool_description = (case getattr mcp_tool (lit ''description'') of
                                Some d \<Rightarrow> d
                              | None \<Rightarrow> PStr (py_str py tool_name @ lit '' '' @ [46020, 44396]));
          input_schema = (case getattr mcp_tool (lit ''inputSchema'') of
                            Some sc \<Rightarrow> sc
                          | None \<Rightarrow> PDict [])
      in case si_session server_info of
           None \<Rightarrow> []
         | Some session \<Rightarrow>
             [\<lparr> w_name = server @ lit ''_'' @ py_str py tool_name,
                w_description = lit ''['' @ str_upper py server @ lit ''] ''
                                  @ py_str py tool_description,
                w_mcp_tool = (tool_name, input_schema),
                w_session = Some session,
                w_server_name = server,
                w_timeout_seconds = timeout_seconds \<rparr>])"

fun wrap_tools ::
  "pylib \<Rightarrow> ustr \<Rightarrow> MCPServerInfo \<Rightarrow> real \<Rightarrow> pyval list \<Rightarrow> MCPToolWrapper list
     \<Rightarrow> MCPToolWrapper list" where
  "wrap_tools py server server_info timeout_seconds [] all_tools = all_tools"
| "wrap_tools py server server_info timeout_seconds (mcp_tool # rest) all_tools =
     wrap_tools py server server_info timeout_seconds rest
       (all_tools @ wrap_tool py server server_info timeout_seconds mcp_tool)"

fun get_all_tools_loop ::
  "pylib \<Rightarrow> real \<Rightarrow> (ustr \<times> MCPServerInfo) list \<Rightarrow> MCPToolWrapper list \<Rightarrow> MCPToolWrapper list"
  where
  "get_all_tools_loop py timeout_seconds [] all_tools = all_tools"
| "get_all_tools_loop py timeout_seconds ((server, server_info) # rest) all_tools =
     get_all_tools_loop py timeout_seconds rest
       (if \<not> si_is_connected server_info then all_tools
        else wrap_tools py server server_info timeout_seconds (si_tools server_info) all_tools)"

definition get_all_tools :: "pylib \<Rightarrow> MCPServerManager \<Rightarrow> real \<Rightarrow> MCPToolWrapper list" where
  "get_all_tools py self timeout_seconds =
     get_all_tools_loop py timeout_seconds (servers self) []"

text \<open>The qualified names that one registered provider contributes to the aggregate.\<close>

definition provider_names :: "pylib \<Rightarrow> ustr \<times> MCPServerInfo \<Rightarrow> ustr list" where
  "provider_names py p =
     (if si_is_connected (snd p) \<and> si_session (snd p) \<noteq> None
      then map (\<lambda>tool. fst p @ lit ''_'' @ py_str py (tool_name_of py tool)) (si_tools (snd p))
      else [])"

section \<open>Instances for the examples\<close>

text \<open>An instance of the builtins for ASCII strings, to evaluate examples.\<close>

definition ascii_lower :: "ustr \<Rightarrow> ustr" where
  "ascii_lower s = map (\<lambda>c. if 65 \<le> c \<and> c \<le> 90 then c + 32 else c) s"

definition ascii_upper :: "ustr \<Rightarrow> ustr" where
  "ascii_upper s = map (\<lambda>c. if 97 \<le> c \<and> c \<le> 122 then c - 32 else c) s"

definition ascii_py :: pylib where
  "ascii_py = \<lparr> str_lower = ascii_lower, str_upper = ascii_upper,
                str_other = (\<lambda>v. lit ''<object>''), float_str = (\<lambda>r. lit ''<float>''),
                preview_error = (\<lambda>v. None), obj_truthy = (\<lambda>v. True) \<rparr>"



definition slow_session :: session where
  "slow_session tool args timeout_seconds = RaceLost"


definition world0 :: world where
  "world0 = \<lparr> ticks = 0, trace = [] \<rparr>"


definition tool_obj :: "ustr \<Rightarrow> pyval" where
  "tool_obj n = PObj (lit ''Tool'') [(lit ''name'', PStr n), (lit ''description'', PStr n)]"

definition provider :: "ustr \<Rightarrow> bool \<Rightarrow> ustr list \<Rightarrow> ustr \<times> MCPServerInfo" where
  "provider n is_up ops =
     (n, \<lparr> si_name = n, si_session = Some slow_session, si_tools = map tool_obj ops,
            si_is_connected = is_up \<rparr>)"

definition registry :: "(ustr \<times> MCPServerInfo) list \<Rightarrow> MCPServerManager" where
  "registry ps =
     \<lparr> grafana_config = None, cloudwatch_config = None, servers = ps, initialized = True \<rparr>"

definition grafana_cfg :: GrafanaConfig where
  "grafana_cfg = \<lparr> url = lit ''https://grafana.example.com'', api_key = lit ''key'' \<rparr>"

definition cloudwatch_cfg :: CloudWatchConfig where
  "cloudwatch_cfg =
     \<lparr> aws_access_key_id = lit ''id'', aws_secret_access_key = lit ''secret'',
       region = lit ''us-east-1'' \<rparr>"

definition npx_missing :: exn where
  "npx_missing = Exn FileNotFoundK (lit ''FileNotFoundError'') (lit ''npx'')"

definition refused :: exn where
  "refused = Exn OtherK (lit ''RuntimeError'') (lit ''refused'')"

definition grafana_down :: environment where
  "grafana_down =
     \<lparr> grafana_start = (\<lambda>cfg. StartRaises npx_missing),
       cloudwatch_start = (\<lambda>cfg. Discovered slow_session (Some [tool_obj (lit ''get_logs'')])) \<rparr>"

definition all_down :: environment where
  "all_down =
     \<lparr> grafana_start = (\<lambda>cfg. StartRaises npx_missing),
       cloudwatch_start = (\<lambda>cfg. StartRaises refused) \<rparr>"


section \<open>Properties of the sanitizer\<close>

lemma contains_iff_sublist: "contains sub s \<longleftrightarrow> sublist sub s"
  by (induction s) (auto simp: sublist_Cons_right)

lemma is_sensitive_iff:
  "is_sensitive py key \<longleftrightarrow> (\<exists>p\<in>set sensitive_keys. sublist p (str_lower py key))"
  by (simp add: is_sensitive_def list_ex_iff contains_iff_sublist)

lemma map_of_sanitize_loop:
  "map_of (sanitize_loop py items acc) k =
     (case map_of (rev items) k of
        None \<Rightarrow> map_of acc k
      | Some v \<Rightarrow> Some (sanitize_item py k v))"
proof (induction items arbitrary: acc)
  case Nil
  then show ?case by simp
next
  case (Cons kv items)
  obtain k' v' where kv: "kv = (k', v')" by (cases kv)
  show ?case
    by (simp add: kv Cons.IH update_conv' map_add_def split: option.splits)
qed

lemma keys_sanitize_loop:
  "fst ` set (sanitize_loop py items acc) = fst ` set acc \<union> fst ` set items"
proof (induction items arbitrary: acc)
  case Nil
  then show ?case by simp
next
  case (Cons kv items)
  obtain k' v' where kv: "kv = (k', v')" by (cases kv)
  have "fst ` set (AList.update k' x acc) = insert k' (fst ` set acc)" for x
    using dom_update [of k' x acc] by (simp add: dom_map_of_conv_image_fst)
  then show ?case by (auto simp: kv Cons.IH)
qed

lemma update_fresh: "k \<notin> fst ` set al \<Longrightarrow> AList.update k v al = al @ [(k, v)]"
  by (induction al) auto

lemma sanitize_loop_distinct:
  "distinct (map fst items) \<Longrightarrow> fst ` set items \<inter> fst ` set acc = {} \<Longrightarrow>
   sanitize_loop py items acc = acc @ map (\<lambda>(k, v). (k, sanitize_item py k v)) items"
proof (induction items arbitrary: acc)
  case Nil
  then show ?case by simp
next
  case (Cons kv items)
  obtain k' v' where kv: "kv = (k', v')" by (cases kv)
  from Cons.prems have fresh: "k' \<notin> fst ` set acc" by (auto simp: kv)
  from Cons.prems have d: "distinct (map fst items)" and n: "k' \<notin> fst ` set items"
    by (auto simp: kv)
  from Cons.prems n have disj: "fst ` set items \<inter> fst ` set (acc @ [(k', sanitize_item py k' v')]) = {}"
    by (auto simp: kv)
  show ?case
    using Cons.IH [OF d disj] by (simp add: kv update_fresh [OF fresh])
qed


lemma sanitize_arguments_map:
  "distinct (map fst args) \<Longrightarrow>
   sanitize_arguments_for_logging py args =
     map (\<lambda>(k, v). (k, sanitize_item py k v)) args"
  using sanitize_loop_distinct [of args "[]" py]
  by (simp add: sanitize_arguments_for_logging_def)

lemma lookup_sanitized:
  assumes "distinct (map fst args)" and "(key, v) \<in> set args"
  shows "map_of (sanitize_arguments_for_logging py args) key = Some (sanitize_item py key v)"
proof -
  have "map_of (rev args) key = Some v"
    using assms by (simp add: distinct_rev rev_map [symmetric])
  then show ?thesis
    by (simp add: sanitize_arguments_for_logging_def map_of_sanitize_loop)
qed

text \<open>
  Claim C7. For an argument map (a dict: its keys are distinct) and each of its items:
  when the lower-cased key contains one of \<open>api_key\<close>, \<open>apikey\<close>, \<open>password\<close>,
  \<open>secret\<close>, \<open>token\<close>, \<open>credential\<close>, the sanitized map holds the fixed marker
  \<open>***REDACTED***\<close> under that key, whatever the value was; otherwise a string value
  longer than 200 characters is replaced by its first 100 characters followed by
  \<open>...(N chars)\<close> with \<open>N\<close> its length in decimal; every other value is passed through
  unchanged.
\<close>

theorem sanitize_arguments_for_logging_spec:
  assumes "distinct (map fst args)" and "(key, v) \<in> set args"
  shows "map_of (sanitize_arguments_for_logging py args) key =
     Some (if \<exists>p \<in> {lit ''api_key'', lit ''apikey'', lit ''password'', lit ''secret'',
                      lit ''token'', lit ''credential''}. sublist p (str_lower py key)
           then PStr (lit ''***REDACTED***'')
           else (case v of
                   PStr s \<Rightarrow>
                     if length s > 200
                     then PStr (take 100 s @ lit ''...('' @ str_nat (length s) @ lit '' chars)'')
                     else v
                 | _ \<Rightarrow> v))"
proof -
  have "sanitize_item py key v =
     (if \<exists>p \<in> {lit ''api_key'', lit ''apikey'', lit ''password'', lit ''secret'',
                      lit ''token'', lit ''credential''}. sublist p (str_lower py key)
           then PStr (lit ''***REDACTED***'')
           else (case v of
                   PStr s \<Rightarrow>
                     if length s > 200
                     then PStr (take 100 s @ lit ''...('' @ str_nat (length s) @ lit '' chars)'')
                     else v
                 | _ \<Rightarrow> v))"
    using is_sensitive_iff [of py key]
    by (cases v) (simp_all add: sanitize_item_def sensitive_keys_def REDACTED_def truncated_def)
  with lookup_sanitized [OF assms] show ?thesis by simp
qed

theorem sanitize_arguments_for_logging_spec_witness:
  "map_of (sanitize_arguments_for_logging ascii_py
      [(lit ''API_Key'', PStr (lit ''s3cr3t'')), (lit ''q'', PStr (replicate 300 97)),
       (lit ''limit'', PInt 10)]) (lit ''q'')
   = Some (PStr (replicate 100 97 @ lit ''...(300 chars)''))
   \<and> map_of (sanitize_arguments_for_logging ascii_py
      [(lit ''API_Key'', PStr (lit ''s3cr3t'')), (lit ''q'', PStr (replicate 300 97)),
       (lit ''limit'', PInt 10)]) (lit ''API_Key'')
   = Some (PStr (lit ''***REDACTED***''))
   \<and> map_of (sanitize_arguments_for_logging ascii_py
      [(lit ''API_Key'', PStr (lit ''s3cr3t'')), (lit ''q'', PStr (replicate 300 97)),
       (lit ''limit'', PInt 10)]) (lit ''limit'')
   = Some (PInt 10)"
proof -
  let ?args = "[(lit ''API_Key'', PStr (lit ''s3cr3t'')), (lit ''q'', PStr (replicate 300 97)),
       (lit ''limit'', PInt 10)]"
  have d: "distinct (map fst ?args)" by (simp add: lit_def)
  have low: "str_lower ascii_py = ascii_lower" by (simp add: ascii_py_def)
  have c: "contains (lit ''api_key'') (ascii_lower (lit ''API_Key''))"
    by (simp add: lit_def ascii_lower_def)
  have nq: "\<not> is_sensitive ascii_py (lit ''q'')"
    by (simp add: is_sensitive_def sensitive_keys_def low lit_def ascii_lower_def)
  have nl: "\<not> is_sensitive ascii_py (lit ''limit'')"
    by (simp add: is_sensitive_def sensitive_keys_def low lit_def ascii_lower_def)
  have 1: "(lit ''q'', PStr (replicate 300 97)) \<in> set ?args" by simp
  have 2: "(lit ''API_Key'', PStr (lit ''s3cr3t'')) \<in> set ?args" by simp
  have 3: "(lit ''limit'', PInt 10) \<in> set ?args" by simp
  have s300: "str_nat 300 = lit ''300''" by (simp add: lit_def)
  show ?thesis
    using sanitize_arguments_for_logging_spec [OF d 1, of ascii_py]
      sanitize_arguments_for_logging_spec [OF d 2, of ascii_py]
      sanitize_arguments_for_logging_spec [OF d 3, of ascii_py]
      nq nl c
    by (simp add: is_sensitive_iff sensitive_keys_def low contains_iff_sublist s300)
      (simp add: lit_def)
qed


lemma str_nat_decimal: "foldl (\<lambda>a c. 10 * a + (c - 48)) 0 (str_nat n) = n"
proof (induction n rule: str_nat.induct)
  case (1 n)
  show ?case
  proof (cases "n < 10")
    case True
    then show ?thesis by (subst str_nat.simps) simp
  next
    case False
    with 1 show ?thesis by (subst str_nat.simps) simp
  qed
qed

lemma sanitize_store_loop_eq:
  "out < length h \<Longrightarrow>
   sanitize_store_loop py items out h = h[out := sanitize_loop py items (h ! out)]"
proof (induction items arbitrary: h)
  case Nil
  then show ?case by simp
next
  case (Cons kv items)
  obtain k' v' where kv: "kv = (k', v')" by (cases kv)
  from Cons.prems have len: "out < length (h[out := AList.update k' (sanitize_item py k' v') (h ! out)])"
    by simp
  show ?case
    using Cons.IH [OF len] Cons.prems by (simp add: kv)
qed

lemma sensitive_lookup:
  assumes "(key, v) \<in> set args" and "is_sensitive py key"
  shows "map_of (sanitize_arguments_for_logging py args) key = Some (PStr REDACTED)"
proof -
  from assms(1) have "key \<in> fst ` set (rev args)" by force
  then obtain v' where "map_of (rev args) key = Some v'"
    by (metis domD dom_map_of_conv_image_fst)
  then show ?thesis
    using assms(2)
    by (simp add: sanitize_arguments_for_logging_def map_of_sanitize_loop sanitize_item_def)
qed

text \<open>
  Claim C10. On a store of dicts, for every valid address \<open>args\<close> of an argument map: the function
  returns the address of a new dict; every dict that was in the store, the input among
  them, is unchanged; the new dict is the sanitized map, with exactly the keys of the
  input; and a key that matches a sensitive pattern and holds a string longer than 200
  characters holds the redaction marker in the result, not a truncated prefix.
\<close>

theorem sanitize_in_store_spec:
  assumes "args < length h"
  shows "\<exists>h' out. sanitize_in_store py h args = Some (h', out)
     \<and> out \<noteq> args
     \<and> (\<forall>a < length h. h' ! a = h ! a)
     \<and> h' ! out = sanitize_arguments_for_logging py (h ! args)
     \<and> fst ` set (h' ! out) = fst ` set (h ! args)
     \<and> (\<forall>key s. (key, PStr s) \<in> set (h ! args) \<and> length s > 200
            \<and> (\<exists>p \<in> set sensitive_keys. sublist p (str_lower py key))
          \<longrightarrow> map_of (h' ! out) key = Some (PStr (lit ''***REDACTED***'')))"
proof -
  let ?out = "length h"
  let ?h1 = "h @ [[]]"
  let ?h' = "sanitize_store_loop py (?h1 ! args) ?out ?h1"
  have run: "sanitize_in_store py h args = Some (?h', ?out)"
    using assms by (simp add: sanitize_in_store_def Let_def)
  have h': "?h' = ?h1[?out := sanitize_loop py (h ! args) []]"
    using assms sanitize_store_loop_eq [of ?out ?h1 py "?h1 ! args"]
    by (simp add: nth_append)
  have old: "\<forall>a < length h. ?h' ! a = h ! a"
    unfolding h' by (simp add: nth_append)
  have new: "?h' ! ?out = sanitize_arguments_for_logging py (h ! args)"
    unfolding h' by (simp add: sanitize_arguments_for_logging_def)
  have keys: "fst ` set (?h' ! ?out) = fst ` set (h ! args)"
    unfolding new by (simp add: sanitize_arguments_for_logging_def keys_sanitize_loop)
  have red: "\<forall>key s. (key, PStr s) \<in> set (h ! args) \<and> length s > 200
            \<and> (\<exists>p \<in> set sensitive_keys. sublist p (str_lower py key))
          \<longrightarrow> map_of (?h' ! ?out) key = Some (PStr (lit ''***REDACTED***''))"
    unfolding new using sensitive_lookup [of _ _ "h ! args" py]
    by (auto simp: is_sensitive_iff REDACTED_def)
  from run assms old new keys red show ?thesis by blast
qed



theorem sanitize_in_store_spec_witness:
  "(1::nat) < length [[(lit ''q'', PInt 1)],
       [(lit ''Password'', PStr (replicate 201 120)), (lit ''n'', PInt 7)]]
   \<and> (\<exists>h' out. sanitize_in_store ascii_py
         [[(lit ''q'', PInt 1)],
          [(lit ''Password'', PStr (replicate 201 120)), (lit ''n'', PInt 7)]] 1 = Some (h', out)
        \<and> out \<noteq> 1
        \<and> h' ! 1 = [(lit ''Password'', PStr (replicate 201 120)), (lit ''n'', PInt 7)]
        \<and> fst ` set (h' ! out) = {lit ''Password'', lit ''n''}
        \<and> map_of (h' ! out) (lit ''Password'') = Some (PStr (lit ''***REDACTED***'')))"
proof -
  let ?h = "[[(lit ''q'', PInt 1)],
     [(lit ''Password'', PStr (replicate 201 120)), (lit ''n'', PInt 7)]]"
  have a: "(1::nat) < length ?h" by simp
  have c: "contains (lit ''password'') (ascii_lower (lit ''Password''))"
    by (simp add: lit_def ascii_lower_def)
  have s: "\<exists>p \<in> set sensitive_keys. sublist p (str_lower ascii_py (lit ''Password''))"
    using c by (simp add: sensitive_keys_def ascii_py_def contains_iff_sublist)
  have m: "(lit ''Password'', PStr (replicate 201 120)) \<in> set (?h ! 1)" by simp
  have l: "length (replicate 201 (120::nat)) > 200" by simp
  from sanitize_in_store_spec [OF a, of ascii_py]
  obtain h' where "\<exists>out. sanitize_in_store ascii_py ?h 1 = Some (h', out)
     \<and> out \<noteq> 1
     \<and> (\<forall>a < length ?h. h' ! a = ?h ! a)
     \<and> h' ! out = sanitize_arguments_for_logging ascii_py (?h ! 1)
     \<and> fst ` set (h' ! out) = fst ` set (?h ! 1)
     \<and> (\<forall>key s. (key, PStr s) \<in> set (?h ! 1) \<and> length s > 200
            \<and> (\<exists>p \<in> set sensitive_keys. sublist p (str_lower ascii_py key))
          \<longrightarrow> map_of (h' ! out) key = Some (PStr (lit ''***REDACTED***'')))" ..
  then obtain out where all: "sanitize_in_store ascii_py ?h 1 = Some (h', out)
     \<and> out \<noteq> 1
     \<and> (\<forall>a < length ?h. h' ! a = ?h ! a)
     \<and> h' ! out = sanitize_arguments_for_logging ascii_py (?h ! 1)
     \<and> fst ` set (h' ! out) = fst ` set (?h ! 1)
     \<and> (\<forall>key s. (key, PStr s) \<in> set (?h ! 1) \<and> length s > 200
            \<and> (\<exists>p \<in> set sensitive_keys. sublist p (str_lower ascii_py key))
          \<longrightarrow> map_of (h' ! out) key = Some (PStr (lit ''***REDACTED***'')))" ..
  note r = all [THEN conjunct1]
  note ne = all [THEN conjunct2, THEN conjunct1]
  note old = all [THEN conjunct2, THEN conjunct2, THEN conjunct1]
  note keys = all [THEN conjunct2, THEN conjunct2, THEN conjunct2, THEN conjunct2, THEN conjunct1]
  note red = all [THEN conjunct2, THEN conjunct2, THEN conjunct2, THEN conjunct2, THEN conjunct2]
  from red [rule_format, of "lit ''Password''" "replicate 201 120"] m l s
  have "map_of (h' ! out) (lit ''Password'') = Some (PStr (lit ''***REDACTED***''))"
    by simp
  moreover from old [rule_format, OF a] have "h' ! 1 = ?h ! 1" .
  moreover from keys have "fst ` set (h' ! out) = {lit ''Password'', lit ''n''}" by simp
  ultimately show ?thesis using r ne by simp
qed


section \<open>Properties of the result normalizer\<close>

lemma lit_inject: "lit a = lit b \<longleftrightarrow> a = b"
  by (simp add: lit_def inj_map_eq_map inj_on_def)

text \<open>The four cases of the specification's section 8.\<close>

lemma process_mcp_result_examples:
  "process_mcp_result py (PDict [(PStr (lit ''text''), PStr (lit ''42%''))])
     = Inr (PStr (lit ''42%''))"
  "process_mcp_result py (PObj c [(lit ''content'',
       PList [PDict [(PStr (lit ''text''), PStr (lit ''a''))],
              PDict [(PStr (lit ''text''), PStr (lit ''b''))]])])
     = Inr (PStr (lit ''a'' @ [10] @ lit ''b''))"
  "process_mcp_result py PNone = Inr (PStr [])"
  "process_mcp_result py (PStr (lit ''ok'')) = Inr (PStr (lit ''ok''))"
  by (simp_all add: process_mcp_result_def getattr_def content_block_text_def str_join_def
      the_str_def)

lemma str42: "str_int 42 = lit ''42''" by (simp add: str_int_def lit_def)

text \<open>
  Claim C2, at the input \<open>{"text": 42}\<close>: the normalizer returns the integer \<open>42\<close> as
  it is, where the precedence of the specification yields the string \<open>"42"\<close>; the value of
  a \<open>result\<close> key is coerced, \<open>{"result": 42}\<close> gives \<open>"42"\<close>.
\<close>

theorem process_mcp_result_text_not_coerced:
  "process_mcp_result py (PDict [(PStr (lit ''text''), PInt 42)]) = Inr (PInt 42)
   \<and> normalize_spec py (PDict [(PStr (lit ''text''), PInt 42)]) = lit ''42''
   \<and> process_mcp_result py (PDict [(PStr (lit ''result''), PInt 42)]) = Inr (PStr (lit ''42''))"
  by (simp add: process_mcp_result_def normalize_spec_def getattr_def py_str_def str42 lit_inject)


lemma first_non_str_None: "list_all (\<lambda>v. \<exists>s. v = PStr s) xs \<Longrightarrow> first_non_str i xs = None"
  by (induction xs arbitrary: i) auto

lemma block_text:
  assumes "text_is_str b"
  shows "content_block_text py b = PStr (element_text_spec py b)"
proof (cases "getattr b (lit ''text'')")
  case (Some t)
  with assms obtain s where "t = PStr s"
    by (cases t) (simp_all add: text_is_str_def)
  with Some show ?thesis
    by (simp add: content_block_text_def element_text_spec_def py_str_def)
next
  case None
  show ?thesis
  proof (cases b)
    case (PDict items)
    show ?thesis
    proof (cases "map_of items (PStr (lit ''text''))")
      case None
      with \<open>getattr b (lit ''text'') = None\<close> PDict show ?thesis
        by (simp add: content_block_text_def element_text_spec_def)
    next
      case (Some t)
      with assms None PDict obtain s where "t = PStr s"
        by (cases t) (simp_all add: text_is_str_def)
      with Some \<open>getattr b (lit ''text'') = None\<close> PDict show ?thesis
        by (simp add: content_block_text_def element_text_spec_def py_str_def)
    qed
  qed (use None in \<open>simp_all add: content_block_text_def element_text_spec_def py_str_def\<close>)
qed

lemma join_blocks:
  assumes "list_all text_is_str els"
  shows "str_join sep (map (content_block_text py) els) = Inr (join sep (map (element_text_spec py) els))"
proof -
  from assms have eq: "map (content_block_text py) els = map (\<lambda>b. PStr (element_text_spec py b)) els"
    by (simp add: list_all_iff block_text)
  have "first_non_str 0 (map (\<lambda>b. PStr (element_text_spec py b)) els) = None"
    by (rule first_non_str_None) (simp add: list_all_iff)
  then show ?thesis
    by (simp add: eq str_join_def the_str_def comp_def)
qed


lemma process_single_content:
  assumes "getattr r (lit ''content'') = Some c" and "case c of PList _ \<Rightarrow> False | _ \<Rightarrow> True"
  shows "process_mcp_result py r = Inr (content_block_text py c)"
proof -
  from assms(1) have r: "r \<noteq> PNone" by (auto simp: getattr_def)
  show ?thesis
  proof (cases "getattr c (lit ''text'')")
    case (Some t)
    with assms r show ?thesis
      by (cases c) (simp_all add: process_mcp_result_def content_block_text_def)
  next
    case None
    with assms r show ?thesis
      by (cases c)
        (simp_all add: process_mcp_result_def content_block_text_def split: option.split)
  qed
qed

lemma normalize_single_content:
  assumes "getattr r (lit ''content'') = Some c" and "case c of PList _ \<Rightarrow> False | _ \<Rightarrow> True"
  shows "normalize_spec py r = element_text_spec py c"
proof -
  from assms(1) obtain cls attrs where r: "r = PObj cls attrs"
    by (cases r) (simp_all add: getattr_def)
  from assms show ?thesis
    by (cases c) (simp_all add: normalize_spec_def r)
qed

lemma process_no_content:
  assumes "getattr r (lit ''content'') = None" and "text_is_str r"
  shows "process_mcp_result py r = Inr (PStr (normalize_spec py r))"
proof (cases r)
  case (PDict items)
  show ?thesis
  proof (cases "map_of items (PStr (lit ''text''))")
    case None
    then show ?thesis
      by (simp add: PDict process_mcp_result_def normalize_spec_def getattr_def
          split: option.split)
  next
    case (Some t)
    with assms PDict obtain s where "t = PStr s"
      by (cases t) (simp_all add: text_is_str_def getattr_def)
    with Some show ?thesis
      by (simp add: PDict process_mcp_result_def normalize_spec_def getattr_def py_str_def)
  qed
qed (use assms(1) in \<open>simp_all add: process_mcp_result_def normalize_spec_def py_str_def\<close>)

text \<open>
  On every input whose \<open>text\<close> fields hold strings, the normalizer returns the string
  that the precedence of the specification gives.
\<close>

lemma process_mcp_result_refines:
  assumes "texts_are_str r"
  shows "process_mcp_result py r = Inr (PStr (normalize_spec py r))"
proof (cases "getattr r (lit ''content'')")
  case None
  with assms have "text_is_str r" by (simp add: texts_are_str_def)
  with None show ?thesis by (rule process_no_content)
next
  case (Some c)
  then obtain cls attrs where r: "r = PObj cls attrs"
    by (cases r) (simp_all add: getattr_def)
  show ?thesis
  proof (cases "\<exists>els. c = PList els")
    case True
    then obtain els where c: "c = PList els" by blast
    with assms Some have "list_all text_is_str els" by (simp add: texts_are_str_def)
    from join_blocks [OF this, of "[10]" py] Some show ?thesis
      by (simp add: process_mcp_result_def normalize_spec_def r c)
  next
    case False
    then have nl: "case c of PList _ \<Rightarrow> False | _ \<Rightarrow> True" by (cases c) simp_all
    from assms Some False have t: "text_is_str c"
      by (cases c) (simp_all add: texts_are_str_def)
    show ?thesis
      by (simp add: process_single_content [OF Some nl] normalize_single_content [OF Some nl]
          block_text [OF t])
  qed
qed


section \<open>Properties of the tool executor and the adapter\<close>

lemma kind_timeout [simp]: "exn_kind (MCPToolTimeoutError py tool server t) = ToolTimeoutK"
  by (simp add: MCPToolTimeoutError_def Let_def)

lemma kind_connection [simp]: "exn_kind (MCPToolConnectionError tool server m) = ToolConnectionK"
  by (simp add: MCPToolConnectionError_def)








text \<open>
  A call that completes in time with a value that the normalizer turns into a string
  gives an outcome of status \<open>SUCCESS\<close> that carries this string.
\<close>

lemma execute_success:
  assumes "call_tool tool args timeout_seconds = Completed (Inr raw)"
    and "process_mcp_result py raw = Inr (PStr s)"
  shows "fst (execute_mcp_tool py clk (Some call_tool) tool server args timeout_seconds w) =
     Inr \<lparr> tool_name = tool, server_name = server, status = SUCCESS, result = Some (PStr s),
           error_message = None,
           execution_time_ms = (clk (ticks w + 1) - clk (ticks w)) * 1000,
           arguments = args \<rparr>"
  using assms
  by (simp add: execute_mcp_tool_def execute_body_def log_success_def time_time_def emit_def
      Let_def)





















section \<open>Properties of the aggregator\<close>

lemma wrap_tools_eq:
  "wrap_tools py server info t tools acc = acc @ concat (map (wrap_tool py server info t) tools)"
  by (induction tools arbitrary: acc) simp_all

lemma get_all_tools_loop_eq:
  "get_all_tools_loop py t srvs acc =
     acc @ concat (map (\<lambda>(server, info).
                     if si_is_connected info
                     then concat (map (wrap_tool py server info t) (si_tools info))
                     else []) srvs)"
proof (induction srvs arbitrary: acc)
  case Nil
  then show ?case by simp
next
  case (Cons p srvs)
  obtain server info where p: "p = (server, info)" by (cases p)
  show ?case by (simp add: p Cons.IH wrap_tools_eq)
qed

lemma get_all_tools_eq:
  "get_all_tools py self t =
     concat (map (\<lambda>(server, info).
                     if si_is_connected info
                     then concat (map (wrap_tool py server info t) (si_tools info))
                     else []) (servers self))"
  by (simp add: get_all_tools_def get_all_tools_loop_eq)

lemma wrap_tool_member:
  assumes "a \<in> set (wrap_tool py server info t mcp_tool)"
  shows "w_server_name a = server \<and> w_session a = si_session info \<and> si_session info \<noteq> None
     \<and> w_name a = server @ lit ''_'' @ py_str py (tool_name_of py mcp_tool)
     \<and> fst (w_mcp_tool a) = tool_name_of py mcp_tool"
  using assms by (cases "si_session info") (auto simp: wrap_tool_def Let_def)

text \<open>
  Claim C6. Every adapter that \<open>get_all_tools\<close> returns belongs to a registered provider
  whose connectivity flag is true, and holds the session of that provider.
\<close>

theorem get_all_tools_connected_only:
  "\<forall>a \<in> set (get_all_tools py self t).
     \<exists>info. (w_server_name a, info) \<in> set (servers self) \<and> si_is_connected info
       \<and> w_session a = si_session info"
proof
  fix a
  assume "a \<in> set (get_all_tools py self t)"
  then obtain server info mcp_tool where
    m: "(server, info) \<in> set (servers self)" and c: "si_is_connected info"
    and a: "a \<in> set (wrap_tool py server info t mcp_tool)"
    by (auto simp: get_all_tools_eq split: if_splits)
  from wrap_tool_member [OF a] m c
  show "\<exists>info. (w_server_name a, info) \<in> set (servers self) \<and> si_is_connected info
       \<and> w_session a = si_session info"
    by auto
qed

text \<open>
  Provider \<open>A\<close> connected with three operations, provider \<open>B\<close> disconnected with two:
  three adapters, all of \<open>A\<close>.
\<close>

theorem get_all_tools_connected_only_witness:
  "map w_server_name (get_all_tools ascii_py
        (registry [provider (lit ''A'') True [lit ''x'', lit ''y'', lit ''z''],
                   provider (lit ''B'') False [lit ''u'', lit ''v'']]) 30)
      = [lit ''A'', lit ''A'', lit ''A'']
   \<and> (\<exists>info. (lit ''A'', info)
                \<in> set (servers (registry [provider (lit ''A'') True [lit ''x'', lit ''y'', lit ''z''],
                                           provider (lit ''B'') False [lit ''u'', lit ''v'']]))
        \<and> si_is_connected info)"
proof -
  let ?m = "registry [provider (lit ''A'') True [lit ''x'', lit ''y'', lit ''z''],
                   provider (lit ''B'') False [lit ''u'', lit ''v'']]"
  let ?a = "hd (get_all_tools ascii_py ?m 30)"
  have names: "map w_server_name (get_all_tools ascii_py ?m 30) = [lit ''A'', lit ''A'', lit ''A'']"
    by (simp add: get_all_tools_eq registry_def provider_def wrap_tool_def Let_def)
  then have ne: "get_all_tools ascii_py ?m 30 \<noteq> []" by auto
  then have mem: "?a \<in> set (get_all_tools ascii_py ?m 30)" by simp
  from ne names have a: "w_server_name ?a = lit ''A''"
    by (cases "get_all_tools ascii_py ?m 30") auto
  from get_all_tools_connected_only [of ascii_py ?m 30, THEN bspec, OF mem]
  have "\<exists>info. (lit ''A'', info) \<in> set (servers ?m) \<and> si_is_connected info"
    unfolding a by blast
  with names show ?thesis by (intro conjI)
qed

lemma names_wrap_tool:
  "map w_name (wrap_tool py server info t mcp_tool) =
     (if si_session info \<noteq> None
      then [server @ lit ''_'' @ py_str py (tool_name_of py mcp_tool)] else [])"
  by (cases "si_session info") (simp_all add: wrap_tool_def Let_def)

lemma names_get_all_tools:
  "map w_name (get_all_tools py self t) = concat (map (provider_names py) (servers self))"
proof -
  have "map w_name (concat (map (wrap_tool py server info t) tools)) =
      (if si_session info \<noteq> None
       then map (\<lambda>tool. server @ lit ''_'' @ py_str py (tool_name_of py tool)) tools else [])"
    for server info tools
    by (induction tools) (simp_all add: names_wrap_tool)
  note inner = this
  have "map w_name (case p of (server, info) \<Rightarrow>
                     if si_is_connected info
                     then concat (map (wrap_tool py server info t) (si_tools info))
                     else []) = provider_names py p" for p
    by (cases p) (simp add: provider_names_def inner wrap_tool_def Let_def)
  then show ?thesis
    by (simp add: get_all_tools_eq map_concat comp_def)
qed

lemma qualified_prefix:
  assumes "p @ u @ a = q @ u @ b"
  shows "prefix (p @ u) (q @ u) \<or> prefix (q @ u) (p @ u)"
proof -
  from assms have "(p @ u) @ a = (q @ u) @ b" by simp
  then obtain us where "p @ u = (q @ u) @ us \<or> (p @ u) @ us = q @ u"
    unfolding append_eq_append_conv2 by blast
  then show ?thesis by (metis prefixI)
qed

lemma distinct_provider_names:
  assumes "si_is_connected (snd p) \<longrightarrow>
           distinct (map (\<lambda>tool. py_str py (tool_name_of py tool)) (si_tools (snd p)))"
  shows "distinct (provider_names py p)"
proof -
  have "map (\<lambda>tool. fst p @ lit ''_'' @ py_str py (tool_name_of py tool)) tools
      = map ((@) (fst p @ lit ''_'')) (map (\<lambda>tool. py_str py (tool_name_of py tool)) tools)"
    for tools by simp
  moreover have "inj_on ((@) (fst p @ lit ''_'')) A" for A
    by (simp add: inj_on_def)
  ultimately show ?thesis
    using assms by (simp add: provider_names_def distinct_map del: map_map)
qed

lemma provider_names_member:
  "x \<in> set (provider_names py p) \<Longrightarrow> \<exists>a. x = fst p @ lit ''_'' @ a"
  by (auto simp: provider_names_def split: if_splits)

lemma distinct_all_names:
  assumes "distinct (map fst srvs)"
    and "\<forall>p \<in> set srvs. si_is_connected (snd p) \<longrightarrow>
           distinct (map (\<lambda>tool. py_str py (tool_name_of py tool)) (si_tools (snd p)))"
    and "\<forall>p \<in> set srvs. \<forall>q \<in> set srvs. fst p \<noteq> fst q \<longrightarrow>
           \<not> prefix (fst p @ lit ''_'') (fst q @ lit ''_'')"
  shows "distinct (concat (map (provider_names py) srvs))"
  using assms
proof (induction srvs)
  case Nil
  then show ?case by simp
next
  case (Cons p srvs)
  have d: "distinct (provider_names py p)"
    using Cons.prems(2) by (intro distinct_provider_names) simp
  have rest: "distinct (concat (map (provider_names py) srvs))"
    using Cons.prems by (intro Cons.IH) auto
  have disj: "set (provider_names py p) \<inter> set (concat (map (provider_names py) srvs)) = {}"
  proof (rule ccontr)
    assume "set (provider_names py p) \<inter> set (concat (map (provider_names py) srvs)) \<noteq> {}"
    then obtain x q where x: "x \<in> set (provider_names py p)" and q: "q \<in> set srvs"
      and xq: "x \<in> set (provider_names py q)" by auto
    from x obtain a where a: "x = fst p @ lit ''_'' @ a" by (auto dest: provider_names_member)
    from xq obtain b where b: "x = fst q @ lit ''_'' @ b" by (auto dest: provider_names_member)
    from Cons.prems(1) q have ne: "fst p \<noteq> fst q" by auto
    from a b have "prefix (fst p @ lit ''_'') (fst q @ lit ''_'')
        \<or> prefix (fst q @ lit ''_'') (fst p @ lit ''_'')"
      using qualified_prefix [of "fst p" "lit ''_''" a "fst q" b] by simp
    moreover from Cons.prems(3) q ne
    have "\<not> prefix (fst p @ lit ''_'') (fst q @ lit ''_'')"
      and "\<not> prefix (fst q @ lit ''_'') (fst p @ lit ''_'')"
      by auto
    ultimately show False by blast
  qed
  from d rest disj show ?case by simp
qed


text \<open>
  Claim C5, amended. Every adapter is named by the provider name, an underscore and the
  operation name. The names are unique across the aggregate when the registry is a dict
  (distinct provider names), the operation names of each connected provider are distinct,
  and no provider name followed by an underscore is a prefix of another provider name
  followed by an underscore.
\<close>

theorem get_all_tools_qualified_names:
  assumes "distinct (map fst (servers self))"
    and "\<forall>(server, info) \<in> set (servers self). si_is_connected info \<longrightarrow>
           distinct (map (\<lambda>tool. py_str py (tool_name_of py tool)) (si_tools info))"
    and "\<forall>p \<in> fst ` set (servers self). \<forall>q \<in> fst ` set (servers self).
           p \<noteq> q \<longrightarrow> \<not> prefix (p @ lit ''_'') (q @ lit ''_'')"
  shows "distinct (map w_name (get_all_tools py self t))
     \<and> (\<forall>a \<in> set (get_all_tools py self t).
           w_name a = w_server_name a @ lit ''_'' @ py_str py (fst (w_mcp_tool a)))"
proof
  have 2: "\<forall>p \<in> set (servers self). si_is_connected (snd p) \<longrightarrow>
           distinct (map (\<lambda>tool. py_str py (tool_name_of py tool)) (si_tools (snd p)))"
    using assms(2) by auto
  have 3: "\<forall>p \<in> set (servers self). \<forall>q \<in> set (servers self). fst p \<noteq> fst q \<longrightarrow>
           \<not> prefix (fst p @ lit ''_'') (fst q @ lit ''_'')"
    using assms(3) by auto
  from distinct_all_names [OF assms(1) 2 3]
  show "distinct (map w_name (get_all_tools py self t))"
    by (simp add: names_get_all_tools)
next
  show "\<forall>a \<in> set (get_all_tools py self t).
           w_name a = w_server_name a @ lit ''_'' @ py_str py (fst (w_mcp_tool a))"
  proof
    fix a
    assume "a \<in> set (get_all_tools py self t)"
    then obtain server info mcp_tool where "a \<in> set (wrap_tool py server info t mcp_tool)"
      by (auto simp: get_all_tools_eq split: if_splits)
    from wrap_tool_member [OF this]
    show "w_name a = w_server_name a @ lit ''_'' @ py_str py (fst (w_mcp_tool a))"
      by simp
  qed
qed

lemma names_of_registry:
  "map w_name (get_all_tools ascii_py (registry ps) t) = concat (map (provider_names ascii_py) ps)"
  by (simp add: names_get_all_tools registry_def)

lemma names_of_provider:
  "provider_names ascii_py (provider n True ops) = map (\<lambda>opn. n @ lit ''_'' @ opn) ops"
  by (simp add: provider_names_def provider_def tool_name_of_def tool_obj_def getattr_def
      py_str_def comp_def)

text \<open>
  Claim C5 as stated fails: a provider that lists an operation twice yields the same name
  twice, and the providers \<open>a\<close> with operation \<open>b_c\<close> and \<open>a_b\<close> with operation \<open>c\<close>
  both yield \<open>a_b_c\<close>.
\<close>

theorem qualified_names_collide_counterexample:
  "map w_name (get_all_tools ascii_py
      (registry [provider (lit ''grafana'') True [lit ''query'', lit ''query'']]) 30)
     = [lit ''grafana_query'', lit ''grafana_query'']
   \<and> map w_name (get_all_tools ascii_py
      (registry [provider (lit ''a'') True [lit ''b_c''], provider (lit ''a_b'') True [lit ''c'']])
      30)
     = [lit ''a_b_c'', lit ''a_b_c'']"
  by (simp add: names_of_registry names_of_provider) (simp add: lit_def)

text \<open>Two providers that each expose an operation named \<open>query\<close>.\<close>

theorem get_all_tools_qualified_names_witness:
  "map w_name (get_all_tools ascii_py
      (registry [provider (lit ''providerA'') True [lit ''query''],
                 provider (lit ''providerB'') True [lit ''query'']]) 30)
     = [lit ''providerA_query'', lit ''providerB_query'']
   \<and> distinct (map w_name (get_all_tools ascii_py
      (registry [provider (lit ''providerA'') True [lit ''query''],
                 provider (lit ''providerB'') True [lit ''query'']]) 30))"
proof -
  let ?m = "registry [provider (lit ''providerA'') True [lit ''query''],
                 provider (lit ''providerB'') True [lit ''query'']]"
  have ne: "lit ''providerA'' \<noteq> lit ''providerB''" by (simp add: lit_inject)
  have 1: "distinct (map fst (servers ?m))"
    using ne by (simp add: registry_def provider_def)
  have 2: "\<forall>(server, info) \<in> set (servers ?m). si_is_connected info \<longrightarrow>
           distinct (map (\<lambda>tool. py_str ascii_py (tool_name_of ascii_py tool)) (si_tools info))"
    by (simp add: registry_def provider_def)
  have 3: "\<forall>p \<in> fst ` set (servers ?m). \<forall>q \<in> fst ` set (servers ?m).
           p \<noteq> q \<longrightarrow> \<not> prefix (p @ lit ''_'') (q @ lit ''_'')"
    by (simp add: registry_def provider_def lit_def)
  have names: "map w_name (get_all_tools ascii_py ?m 30)
     = [lit ''providerA_query'', lit ''providerB_query'']"
    by (simp add: names_of_registry names_of_provider) (simp add: lit_def)
  from get_all_tools_qualified_names [OF 1 2 3, of 30, THEN conjunct1] names
  show ?thesis by simp
qed


section \<open>Properties of the server manager\<close>

lemma register_started:
  assumes "\<forall>e. outcome = StartRaises e \<longrightarrow> is_Exception e"
  shows "\<exists>w'. register_provider n (start_provider n target outcome w) self =
           (None,
            self\<lparr>servers := (case outcome of
                Discovered s ts \<Rightarrow>
                  AList.update n \<lparr> si_name = n, si_session = Some s,
                                   si_tools = (case ts of Some l \<Rightarrow> l | None \<Rightarrow> []),
                                   si_is_connected = True \<rparr> (servers self)
              | StartRaises e \<Rightarrow> servers self)\<rparr>, w')
     \<and> set (trace w) \<subseteq> set (trace w')
     \<and> (\<forall>e. outcome = StartRaises e \<longrightarrow>
           (\<exists>site fs. site \<in> {StartFailed, StartNoExecutable}
              \<and> Log LogError site (FStr n # fs) \<in> set (trace w')))"
proof (cases outcome)
  case (Discovered s ts)
  then show ?thesis
    by (auto simp: register_provider_def start_provider_def emit_def Let_def)
next
  case (StartRaises e)
  with assms have "is_Exception e" by simp
  with StartRaises show ?thesis
    by (auto simp: register_provider_def start_provider_def emit_def Let_def)
qed

lemma provider_step:
  assumes "\<forall>cfg e. c = Some cfg \<and> start cfg = StartRaises e \<longrightarrow> is_Exception e"
  shows "\<exists>w'. (case c of
                 Some cfg \<Rightarrow> register_provider n (start_provider n (target cfg) (start cfg) w) self
               | None \<Rightarrow> (None, self, emit (Log LogWarning InitNoConfig [FStr n]) w)) =
           (None,
            self\<lparr>servers := (case c of
                None \<Rightarrow> servers self
              | Some cfg \<Rightarrow>
                 (case start cfg of
                    Discovered s ts \<Rightarrow>
                      AList.update n \<lparr> si_name = n, si_session = Some s,
                                       si_tools = (case ts of Some l \<Rightarrow> l | None \<Rightarrow> []),
                                       si_is_connected = True \<rparr> (servers self)
                  | StartRaises e \<Rightarrow> servers self))\<rparr>, w')
     \<and> set (trace w) \<subseteq> set (trace w')
     \<and> (\<forall>cfg e. c = Some cfg \<and> start cfg = StartRaises e \<longrightarrow>
           (\<exists>site fs. site \<in> {StartFailed, StartNoExecutable}
              \<and> Log LogError site (FStr n # fs) \<in> set (trace w')))"
proof (cases c)
  case None
  then show ?thesis by (auto simp: emit_def)
next
  case (Some cfg)
  from assms Some have "\<forall>e. start cfg = StartRaises e \<longrightarrow> is_Exception e" by simp
  from register_started [where n = n and target = "target cfg" and w = w and self = self,
      OF this] Some
  show ?thesis by simp
qed

lemma grafana_step_eq:
  "(case grafana_config self of
      Some _ \<Rightarrow> register_provider (lit ''grafana'') (start_grafana_mcp env self w) self
    | None \<Rightarrow> x) =
   (case grafana_config self of
      Some cfg \<Rightarrow>
        register_provider (lit ''grafana'')
          (start_provider (lit ''grafana'') (url cfg) (grafana_start env cfg) w) self
    | None \<Rightarrow> x)"
  by (simp add: start_grafana_mcp_def split: option.split)

lemma cloudwatch_step_eq:
  "(case cloudwatch_config self of
      Some _ \<Rightarrow> register_provider (lit ''cloudwatch'') (start_cloudwatch_mcp env self w) self
    | None \<Rightarrow> x) =
   (case cloudwatch_config self of
      Some cfg \<Rightarrow>
        register_provider (lit ''cloudwatch'')
          (start_provider (lit ''cloudwatch'') (region cfg) (cloudwatch_start env cfg) w) self
    | None \<Rightarrow> x)"
  by (simp add: start_cloudwatch_mcp_def split: option.split)

lemma initialize_servers_result:
  assumes g: "\<forall>cfg e. gc = Some cfg \<and> grafana_start env cfg = StartRaises e \<longrightarrow> is_Exception e"
    and c: "\<forall>cfg e. cc = Some cfg \<and> cloudwatch_start env cfg = StartRaises e \<longrightarrow> is_Exception e"
    and self: "grafana_config self = gc" "cloudwatch_config self = cc"
    and S1: "S1 = (case gc of
             None \<Rightarrow> servers self
           | Some cfg \<Rightarrow>
              (case grafana_start env cfg of
                 Discovered s ts \<Rightarrow>
                   AList.update (lit ''grafana'')
                     \<lparr> si_name = lit ''grafana'', si_session = Some s,
                       si_tools = (case ts of Some l \<Rightarrow> l | None \<Rightarrow> []),
                       si_is_connected = True \<rparr> (servers self)
               | StartRaises e \<Rightarrow> servers self))"
    and S2: "S2 = (case cc of
             None \<Rightarrow> S1
           | Some cfg \<Rightarrow>
              (case cloudwatch_start env cfg of
                 Discovered s ts \<Rightarrow>
                   AList.update (lit ''cloudwatch'')
                     \<lparr> si_name = lit ''cloudwatch'', si_session = Some s,
                       si_tools = (case ts of Some l \<Rightarrow> l | None \<Rightarrow> []),
                       si_is_connected = True \<rparr> S1
               | StartRaises e \<Rightarrow> S1))"
  shows "\<exists>w'. initialize_servers env self w = (None, self\<lparr>servers := S2, initialized := True\<rparr>, w')
     \<and> (\<forall>cfg e. gc = Some cfg \<and> grafana_start env cfg = StartRaises e \<longrightarrow>
           (\<exists>site fs. site \<in> {StartFailed, StartNoExecutable}
              \<and> Log LogError site (FStr (lit ''grafana'') # fs) \<in> set (trace w')))
     \<and> (\<forall>cfg e. cc = Some cfg \<and> cloudwatch_start env cfg = StartRaises e \<longrightarrow>
           (\<exists>site fs. site \<in> {StartFailed, StartNoExecutable}
              \<and> Log LogError site (FStr (lit ''cloudwatch'') # fs) \<in> set (trace w')))"
proof -
  let ?w1 = "emit (Log LogInfo InitBegin []) w"
  let ?self1 = "self\<lparr>servers := S1\<rparr>"
  from provider_step [where n = "lit ''grafana''" and target = url and w = ?w1 and self = self,
      OF g]
  obtain w2 where
    s1: "(case gc of
            Some cfg \<Rightarrow> register_provider (lit ''grafana'')
                (start_provider (lit ''grafana'') (url cfg) (grafana_start env cfg) ?w1) self
          | None \<Rightarrow> (None, self, emit (Log LogWarning InitNoConfig [FStr (lit ''grafana'')]) ?w1))
         = (None, ?self1, w2)"
    and l1: "\<forall>cfg e. gc = Some cfg \<and> grafana_start env cfg = StartRaises e \<longrightarrow>
           (\<exists>site fs. site \<in> {StartFailed, StartNoExecutable}
              \<and> Log LogError site (FStr (lit ''grafana'') # fs) \<in> set (trace w2))"
    unfolding S1 by (elim exE conjE)
  have S2': "S2 = (case cc of
             None \<Rightarrow> servers ?self1
           | Some cfg \<Rightarrow>
              (case cloudwatch_start env cfg of
                 Discovered s ts \<Rightarrow>
                   AList.update (lit ''cloudwatch'')
                     \<lparr> si_name = lit ''cloudwatch'', si_session = Some s,
                       si_tools = (case ts of Some l \<Rightarrow> l | None \<Rightarrow> []),
                       si_is_connected = True \<rparr> (servers ?self1)
               | StartRaises e \<Rightarrow> servers ?self1))"
    unfolding S2 by (simp cong: option.case_cong start_outcome.case_cong)
  from provider_step [where n = "lit ''cloudwatch''" and target = region and w = w2
      and self = ?self1, OF c]
  obtain w3 where
    s2: "(case cc of
            Some cfg \<Rightarrow> register_provider (lit ''cloudwatch'')
                (start_provider (lit ''cloudwatch'') (region cfg) (cloudwatch_start env cfg) w2)
                ?self1
          | None \<Rightarrow> (None, ?self1,
                     emit (Log LogWarning InitNoConfig [FStr (lit ''cloudwatch'')]) w2))
         = (None, ?self1\<lparr>servers := S2\<rparr>, w3)"
    and sub: "set (trace w2) \<subseteq> set (trace w3)"
    and l2: "\<forall>cfg e. cc = Some cfg \<and> cloudwatch_start env cfg = StartRaises e \<longrightarrow>
           (\<exists>site fs. site \<in> {StartFailed, StartNoExecutable}
              \<and> Log LogError site (FStr (lit ''cloudwatch'') # fs) \<in> set (trace w3))"
    unfolding S2' by (elim exE conjE)
  let ?w4 = "emit (Log LogInfo InitDone [FNat (length S2)]) w3"
  have body: "initialize_body env self ?w1 =
      (None, self\<lparr>servers := S2, initialized := True\<rparr>, ?w4)"
    unfolding initialize_body_def grafana_step_eq cloudwatch_step_eq
    by (simp add: self s1 s2)
  have r: "initialize_servers env self w =
      (None, self\<lparr>servers := S2, initialized := True\<rparr>, ?w4)"
    by (simp add: initialize_servers_def body)
  have tr: "set (trace w3) \<subseteq> set (trace ?w4)" by (auto simp: emit_def)
  have l1': "\<forall>cfg e. gc = Some cfg \<and> grafana_start env cfg = StartRaises e \<longrightarrow>
           (\<exists>site fs. site \<in> {StartFailed, StartNoExecutable}
              \<and> Log LogError site (FStr (lit ''grafana'') # fs) \<in> set (trace ?w4))"
  proof (intro allI impI)
    fix cfg e
    assume "gc = Some cfg \<and> grafana_start env cfg = StartRaises e"
    with l1 obtain site fs where "site \<in> {StartFailed, StartNoExecutable}"
      and "Log LogError site (FStr (lit ''grafana'') # fs) \<in> set (trace w2)" by blast
    with sub tr show "\<exists>site fs. site \<in> {StartFailed, StartNoExecutable}
              \<and> Log LogError site (FStr (lit ''grafana'') # fs) \<in> set (trace ?w4)"
      by blast
  qed
  have l2': "\<forall>cfg e. cc = Some cfg \<and> cloudwatch_start env cfg = StartRaises e \<longrightarrow>
           (\<exists>site fs. site \<in> {StartFailed, StartNoExecutable}
              \<and> Log LogError site (FStr (lit ''cloudwatch'') # fs) \<in> set (trace ?w4))"
  proof (intro allI impI)
    fix cfg e
    assume "cc = Some cfg \<and> cloudwatch_start env cfg = StartRaises e"
    with l2 obtain site fs where "site \<in> {StartFailed, StartNoExecutable}"
      and "Log LogError site (FStr (lit ''cloudwatch'') # fs) \<in> set (trace w3)" by blast
    with tr show "\<exists>site fs. site \<in> {StartFailed, StartNoExecutable}
              \<and> Log LogError site (FStr (lit ''cloudwatch'') # fs) \<in> set (trace ?w4)"
      by blast
  qed
  show ?thesis
    by (intro exI [of _ ?w4] conjI) (rule r, rule l1', rule l2')
qed


text \<open>
  Claim C9. For every pair of configurations and every behaviour of the two providers
  whose startup failures are exceptions (instances of \<open>Exception\<close>), \<open>initialize_servers\<close>
  on a new manager returns without raising and leaves the manager initialized, however
  many providers started. Each provider is registered exactly when it is configured and
  its own startup succeeded, whatever happened to the other one; a provider whose
  startup failed is absent, and an error record naming it has been logged.
\<close>

theorem initialize_servers_isolates_failures:
  assumes "\<forall>cfg e. gc = Some cfg \<and> grafana_start env cfg = StartRaises e \<longrightarrow> is_Exception e"
    and "\<forall>cfg e. cc = Some cfg \<and> cloudwatch_start env cfg = StartRaises e \<longrightarrow> is_Exception e"
  shows "\<exists>self' w'. initialize_servers env (MCPServerManager_init gc cc) w = (None, self', w')
     \<and> is_initialized self'
     \<and> map_of (servers self') (lit ''grafana'') =
          (case gc of
             None \<Rightarrow> None
           | Some cfg \<Rightarrow>
              (case grafana_start env cfg of
                 Discovered s ts \<Rightarrow>
                   Some \<lparr> si_name = lit ''grafana'', si_session = Some s,
                          si_tools = (case ts of Some l \<Rightarrow> l | None \<Rightarrow> []),
                          si_is_connected = True \<rparr>
               | StartRaises e \<Rightarrow> None))
     \<and> map_of (servers self') (lit ''cloudwatch'') =
          (case cc of
             None \<Rightarrow> None
           | Some cfg \<Rightarrow>
              (case cloudwatch_start env cfg of
                 Discovered s ts \<Rightarrow>
                   Some \<lparr> si_name = lit ''cloudwatch'', si_session = Some s,
                          si_tools = (case ts of Some l \<Rightarrow> l | None \<Rightarrow> []),
                          si_is_connected = True \<rparr>
               | StartRaises e \<Rightarrow> None))
     \<and> (\<forall>cfg e. gc = Some cfg \<and> grafana_start env cfg = StartRaises e \<longrightarrow>
           (\<exists>site fs. site \<in> {StartFailed, StartNoExecutable}
              \<and> Log LogError site (FStr (lit ''grafana'') # fs) \<in> set (trace w')))
     \<and> (\<forall>cfg e. cc = Some cfg \<and> cloudwatch_start env cfg = StartRaises e \<longrightarrow>
           (\<exists>site fs. site \<in> {StartFailed, StartNoExecutable}
              \<and> Log LogError site (FStr (lit ''cloudwatch'') # fs) \<in> set (trace w')))"
proof -
  let ?self = "MCPServerManager_init gc cc"
  define S1 where "S1 = (case gc of
             None \<Rightarrow> servers ?self
           | Some cfg \<Rightarrow>
              (case grafana_start env cfg of
                 Discovered s ts \<Rightarrow>
                   AList.update (lit ''grafana'')
                     \<lparr> si_name = lit ''grafana'', si_session = Some s,
                       si_tools = (case ts of Some l \<Rightarrow> l | None \<Rightarrow> []),
                       si_is_connected = True \<rparr> (servers ?self)
               | StartRaises e \<Rightarrow> servers ?self))"
  define S2 where "S2 = (case cc of
             None \<Rightarrow> S1
           | Some cfg \<Rightarrow>
              (case cloudwatch_start env cfg of
                 Discovered s ts \<Rightarrow>
                   AList.update (lit ''cloudwatch'')
                     \<lparr> si_name = lit ''cloudwatch'', si_session = Some s,
                       si_tools = (case ts of Some l \<Rightarrow> l | None \<Rightarrow> []),
                       si_is_connected = True \<rparr> S1
               | StartRaises e \<Rightarrow> S1))"
  have cfgs: "grafana_config ?self = gc" "cloudwatch_config ?self = cc"
    by (simp_all add: MCPServerManager_init_def)
  from initialize_servers_result [OF assms cfgs S1_def S2_def, of w]
  obtain w' where
    r: "initialize_servers env ?self w = (None, ?self\<lparr>servers := S2, initialized := True\<rparr>, w')"
    and l1: "\<forall>cfg e. gc = Some cfg \<and> grafana_start env cfg = StartRaises e \<longrightarrow>
           (\<exists>site fs. site \<in> {StartFailed, StartNoExecutable}
              \<and> Log LogError site (FStr (lit ''grafana'') # fs) \<in> set (trace w'))"
    and l2: "\<forall>cfg e. cc = Some cfg \<and> cloudwatch_start env cfg = StartRaises e \<longrightarrow>
           (\<exists>site fs. site \<in> {StartFailed, StartNoExecutable}
              \<and> Log LogError site (FStr (lit ''cloudwatch'') # fs) \<in> set (trace w'))"
    by (elim exE conjE)
  have ne: "lit ''grafana'' \<noteq> lit ''cloudwatch''" by (simp add: lit_inject)
  have g: "map_of S2 (lit ''grafana'') =
          (case gc of
             None \<Rightarrow> None
           | Some cfg \<Rightarrow>
              (case grafana_start env cfg of
                 Discovered s ts \<Rightarrow>
                   Some \<lparr> si_name = lit ''grafana'', si_session = Some s,
                          si_tools = (case ts of Some l \<Rightarrow> l | None \<Rightarrow> []),
                          si_is_connected = True \<rparr>
               | StartRaises e \<Rightarrow> None))"
    using ne
    by (simp add: S2_def S1_def MCPServerManager_init_def update_conv'
        split: option.split start_outcome.split)
  have c: "map_of S2 (lit ''cloudwatch'') =
          (case cc of
             None \<Rightarrow> None
           | Some cfg \<Rightarrow>
              (case cloudwatch_start env cfg of
                 Discovered s ts \<Rightarrow>
                   Some \<lparr> si_name = lit ''cloudwatch'', si_session = Some s,
                          si_tools = (case ts of Some l \<Rightarrow> l | None \<Rightarrow> []),
                          si_is_connected = True \<rparr>
               | StartRaises e \<Rightarrow> None))"
    using ne [symmetric]
    by (simp add: S2_def S1_def MCPServerManager_init_def update_conv'
        split: option.split start_outcome.split)
  have i: "is_initialized (?self\<lparr>servers := S2, initialized := True\<rparr>)"
    by (simp add: is_initialized_def)
  have sv: "servers (?self\<lparr>servers := S2, initialized := True\<rparr>) = S2" by simp
  show ?thesis
    by (intro exI [of _ "?self\<lparr>servers := S2, initialized := True\<rparr>"] exI [of _ w'] conjI)
      (rule r, rule i, simp only: sv g, simp only: sv c, rule l1, rule l2)
qed


text \<open>
  Grafana's executable is missing and CloudWatch starts: only CloudWatch is registered.
  Both fail: the registry is empty. The manager is initialized in both cases.
\<close>

theorem initialize_servers_isolates_failures_witness:
  "is_Exception npx_missing \<and> is_Exception refused
   \<and> (\<exists>self' w'.
         initialize_servers grafana_down
           (MCPServerManager_init (Some grafana_cfg) (Some cloudwatch_cfg)) world0
           = (None, self', w')
       \<and> is_initialized self'
       \<and> map_of (servers self') (lit ''grafana'') = None
       \<and> map_of (servers self') (lit ''cloudwatch'') =
            Some \<lparr> si_name = lit ''cloudwatch'', si_session = Some slow_session,
                   si_tools = [tool_obj (lit ''get_logs'')], si_is_connected = True \<rparr>)
   \<and> (\<exists>self' w'.
         initialize_servers all_down
           (MCPServerManager_init (Some grafana_cfg) (Some cloudwatch_cfg)) world0
           = (None, self', w')
       \<and> is_initialized self'
       \<and> map_of (servers self') (lit ''grafana'') = None
       \<and> map_of (servers self') (lit ''cloudwatch'') = None)"
proof -
  have e1: "is_Exception npx_missing" by (simp add: is_Exception_def npx_missing_def)
  have e2: "is_Exception refused" by (simp add: is_Exception_def refused_def)
  have g1: "\<forall>cfg e. Some grafana_cfg = Some cfg \<and> grafana_start grafana_down cfg = StartRaises e
      \<longrightarrow> is_Exception e"
    using e1 by (simp add: grafana_down_def)
  have c1: "\<forall>cfg e. Some cloudwatch_cfg = Some cfg
      \<and> cloudwatch_start grafana_down cfg = StartRaises e \<longrightarrow> is_Exception e"
    by (simp add: grafana_down_def)
  have g2: "\<forall>cfg e. Some grafana_cfg = Some cfg \<and> grafana_start all_down cfg = StartRaises e
      \<longrightarrow> is_Exception e"
    using e1 by (simp add: all_down_def)
  have c2: "\<forall>cfg e. Some cloudwatch_cfg = Some cfg
      \<and> cloudwatch_start all_down cfg = StartRaises e \<longrightarrow> is_Exception e"
    using e2 by (simp add: all_down_def)
  from initialize_servers_isolates_failures [OF g1 c1, of world0]
  have 1: "\<exists>self' w'.
         initialize_servers grafana_down
           (MCPServerManager_init (Some grafana_cfg) (Some cloudwatch_cfg)) world0
           = (None, self', w')
       \<and> is_initialized self'
       \<and> map_of (servers self') (lit ''grafana'') = None
       \<and> map_of (servers self') (lit ''cloudwatch'') =
            Some \<lparr> si_name = lit ''cloudwatch'', si_session = Some slow_session,
                   si_tools = [tool_obj (lit ''get_logs'')], si_is_connected = True \<rparr>"
    by (simp add: grafana_down_def) blast
  from initialize_servers_isolates_failures [OF g2 c2, of world0]
  have 2: "\<exists>self' w'.
         initialize_servers all_down
           (MCPServerManager_init (Some grafana_cfg) (Some cloudwatch_cfg)) world0
           = (None, self', w')
       \<and> is_initialized self'
       \<and> map_of (servers self') (lit ''grafana'') = None
       \<and> map_of (servers self') (lit ''cloudwatch'') = None"
    by (simp add: all_down_def) blast
  from e1 e2 1 2 show ?thesis by (intro conjI)
qed


end
